theory Spec2Isabelle
  imports
    Complex_Main
    "HOL-Library.Word"
    "HOL-Library.Signed_Division"
    "HOL-Library.Multiset"
    "HOL-Library.Char_ord"
    "HOL-Library.List_Lexorder"
begin

section \<open>The node resource manager of koordlet: eviction and the BE memory evictor\<close>

text \<open>
  The development embeds \<^verbatim>\<open>pkg/koordlet/resmanager/resmanager.go\<close> and
  \<^verbatim>\<open>pkg/koordlet/resmanager/memory_evict.go\<close>. The Go code acts on the outside world:
  it writes audit records, calls the cluster API, emits events, stops containers and logs.
  Every such action is an \<open>effect\<close>; a function of the source that acts takes the
  list of effects so far and returns it extended, in the order of the source. What the
  outside world answers (the cluster API, the container runtime) is a parameter that may
  depend on everything done so far.
\<close>

subsection \<open>Data\<close>

type_synonym int64 = "64 word"
type_synonym int32 = "32 word"

text \<open>
  \<^verbatim>\<open>time.Time\<close> readings as nanoseconds on the monotonic clock, an unbounded integer.
  A \<^verbatim>\<open>time.Duration\<close> is an \<^verbatim>\<open>int64\<close> count of nanoseconds, and arithmetic on
  durations wraps as \<^verbatim>\<open>int64\<close> does. \<open>time_Add\<close> is \<^verbatim>\<open>t.Add(d)\<close>: the reading
  moved by the signed value of the duration; \<^verbatim>\<open>t.Before(u)\<close> is \<open>t < u\<close>.
\<close>
type_synonym Time = int

definition time_Second :: int64 where
  "time_Second = 1000000000"

definition time_Add :: "Time \<Rightarrow> int64 \<Rightarrow> Time" where
  "time_Add t d = t + sint d"

text \<open>
  A \<^verbatim>\<open>float64\<close> metric sample. The source only compares samples (\<^verbatim>\<open>!= 0\<close>,
  \<^verbatim>\<open>>\<close>) and converts them with \<^verbatim>\<open>int64(x)\<close>; on the finite values of
  \<^verbatim>\<open>float64\<close> these agree with the same operations on the real numbers. NaN and the
  infinities are not represented.
\<close>
type_synonym float64 = real

text \<open>The severities of \<^verbatim>\<open>klog\<close>; \<open>KV n\<close> is \<^verbatim>\<open>klog.V(n).Infof\<close>. Log texts are not kept.\<close>
datatype severity = KInfo | KWarning | KError | KV nat

record ContainerStatus =
  StatusName :: string
  ContainerID :: string
  Running :: bool  \<comment> \<open>\<^verbatim>\<open>State.Running != nil\<close>\<close>

text \<open>
  The fields of \<^verbatim>\<open>corev1.Pod\<close> that the two files read. \<open>Containers\<close> holds the
  names of \<^verbatim>\<open>pod.Spec.Containers\<close>, \<open>Status\<close> stands for \<^verbatim>\<open>pod.Status\<close>.
  \<open>QoSClass\<close> is modelled from the spec: the pod descriptor carries a QoS class label,
  read by \<^verbatim>\<open>extension.GetPodQoSClassRaw\<close>, whose source is not part of the files embedded.
\<close>
record Pod =
  Namespace :: string
  Name :: string
  UID :: string
  QoSClass :: string
  Priority :: "int32 option"
  Containers :: "string list"
  Status :: "ContainerStatus list"

text \<open>
  The feature gates named in the two files (\<^verbatim>\<open>features.BECPUSuppress\<close> and so on); any
  other gate is \<open>OtherFeature\<close>.
\<close>
datatype Feature =
    BECPUSuppress | BEMemoryEvict | BECPUEvict | CgroupReconcile | CPUBurst
  | SystemConfig | RdtResctrl | BlkIOReconcile | OtherFeature string

datatype effect =
    Klog severity
  | AuditRecord string string string string
      \<comment> \<open>namespace, name, reason, message\<close>
  | EvictCall string string string string "string option"
      \<comment> \<open>namespace, name, UID precondition, API version; the error answered, if any\<close>
  | Eventf string string string string
      \<comment> \<open>UID of the pod, event type, reason, message\<close>
  | RecordPodEviction string string string
      \<comment> \<open>the counter \<^verbatim>\<open>pod_eviction_total\<close>: namespace, name, reason\<close>
  | StopContainerCall string string int "string option"
      \<comment> \<open>runtime handler, container id, grace period; the error answered, if any\<close>
  | PodsEvictedRun
      \<comment> \<open>the sweeper of the evicted set is started\<close>
  | GoRunQOSGreyCtrlPlugins
  | RunFeature string "Feature list" int
      \<comment> \<open>reconciler started, its feature gates, its interval in seconds\<close>
  | RunFeatureWithInit string "Feature list" int
  | SetupPlugins
  | StartPlugins "string option"
      \<comment> \<open>the error answered, if any\<close>

definition evictPodSuccess :: string where
  "evictPodSuccess = ''evictPodSuccess''"

definition evictPodFail :: string where
  "evictPodFail = ''evictPodFail''"

definition EventTypeWarning :: string where
  "EventTypeWarning = ''Warning''"

subsection \<open>The expiring key set\<close>

text \<open>
  Modelled from the spec: \<^verbatim>\<open>expireCache.Cache\<close> (package \<^verbatim>\<open>pkg/util/cache\<close>) is not
  among the files embedded. The spec gives \<^verbatim>\<open>get(key) -> (value, present)\<close>,
  \<^verbatim>\<open>set_default(key, value)\<close> that inserts with the default TTL and never fails, and
  entries that disappear when their TTL is over. An entry leaving the set is the
  operation \<open>cache_expire\<close>.
\<close>
type_synonym Cache = "string \<rightharpoonup> string"

definition cache_Get :: "Cache \<Rightarrow> string \<Rightarrow> string option" where
  "cache_Get c k = c k"

definition cache_SetDefault :: "Cache \<Rightarrow> string \<Rightarrow> string \<Rightarrow> Cache" where
  "cache_SetDefault c k v = c(k \<mapsto> v)"

definition cache_expire :: "Cache \<Rightarrow> string list \<Rightarrow> Cache" where
  "cache_expire c ks = (\<lambda>k. if k \<in> set ks then None else c k)"

subsection \<open>The eviction executor\<close>

text \<open>
  The options of \<^verbatim>\<open>Config\<close> that the two files read; the type itself is declared in a
  file that is not embedded. Modelled from the spec: the intervals are in seconds and
  \<open>MemoryEvictCoolTimeSeconds\<close> is the minimum gap between two eviction waves. The
  source converts this option with \<^verbatim>\<open>time.Duration(...)\<close>, an \<^verbatim>\<open>int64\<close>; it is kept
  as the 64-bit integer that conversion gives.
\<close>
record Config =
  ReconcileIntervalSeconds :: int
  CPUSuppressIntervalSeconds :: int
  CPUEvictIntervalSeconds :: int
  MemoryEvictIntervalSeconds :: int
  MemoryEvictCoolTimeSeconds :: int64

text \<open>
  The fields of \<^verbatim>\<open>resmanager\<close> that the code reads or writes. Only the evicted set
  changes after construction. The informer, the metric cache, the cluster client and the
  event recorder are the outside world: what they answer is an input, what is sent to them
  an effect.
\<close>
record resmanager =
  config :: Config
  collectResUsedIntervalSeconds :: int64
  nodeName :: string
  podsEvicted :: Cache
  evictVersion :: string

text \<open>
  The cluster API: \<^verbatim>\<open>util.EvictPodByVersion\<close> answers an error or none. The answer may
  depend on everything done before the call (first argument) and on the request:
  namespace, name, UID precondition and version.
\<close>
type_synonym ClusterAPI = "effect list \<Rightarrow> string \<Rightarrow> string \<Rightarrow> string \<Rightarrow> string \<Rightarrow> string option"

definition podEvictMessage :: "Pod \<Rightarrow> string \<Rightarrow> string \<Rightarrow> string" where
  "podEvictMessage p reason message =
     ''evict Pod:'' @ Name p @ '', reason: '' @ reason @ '', message: '' @ message"

definition evictPod ::
  "ClusterAPI \<Rightarrow> resmanager \<Rightarrow> Pod \<Rightarrow> string \<Rightarrow> string \<Rightarrow> effect list \<Rightarrow> bool \<times> effect list" where
  "evictPod api r p reason message tr =
     (let msg = podEvictMessage p reason message;
          tr1 = tr @ [AuditRecord (Namespace p) (Name p) reason message];
          err = api tr1 (Namespace p) (Name p) (UID p) (evictVersion r);
          tr2 = tr1 @ [EvictCall (Namespace p) (Name p) (UID p) (evictVersion r) err]
      in if err = None
         then (True, tr2 @ [Eventf (UID p) EventTypeWarning evictPodSuccess msg,
                            RecordPodEviction (Namespace p) (Name p) reason,
                            Klog KInfo])
         else (False, tr2 @ [Eventf (UID p) EventTypeWarning evictPodFail msg,
                             Klog KError]))"

text \<open>
  The parameter \<^verbatim>\<open>node\<close> of \<^verbatim>\<open>evictPodIfNotEvicted\<close> and of
  \<^verbatim>\<open>evictPodsIfNotEvicted\<close> is never read by the source and is left out.
\<close>
definition evictPodIfNotEvicted ::
  "ClusterAPI \<Rightarrow> Pod \<Rightarrow> string \<Rightarrow> string \<Rightarrow> resmanager \<times> effect list \<Rightarrow> resmanager \<times> effect list" where
  "evictPodIfNotEvicted api p reason message = (\<lambda>(r, tr).
     (case cache_Get (podsEvicted r) (UID p) of
        Some _ \<Rightarrow> (r, tr @ [Klog (KV 5)])
      | None \<Rightarrow>
          (case evictPod api r p reason message tr of
             (success, tr') \<Rightarrow>
               if success
               then (r\<lparr>podsEvicted := cache_SetDefault (podsEvicted r) (UID p) (UID p)\<rparr>, tr')
               else (r, tr'))))"

fun evictPodsIfNotEvicted ::
  "ClusterAPI \<Rightarrow> Pod list \<Rightarrow> string \<Rightarrow> string \<Rightarrow> resmanager \<times> effect list \<Rightarrow> resmanager \<times> effect list" where
  "evictPodsIfNotEvicted api [] reason message w = w"
| "evictPodsIfNotEvicted api (p # evictPods) reason message w =
     evictPodsIfNotEvicted api evictPods reason message
       (evictPodIfNotEvicted api p reason message w)"

subsection \<open>The container killer\<close>

text \<open>
  The helpers that \<^verbatim>\<open>killContainers\<close> calls live in packages that are not embedded
  (\<^verbatim>\<open>pkg/util\<close> and \<^verbatim>\<open>pkg/koordlet/util/runtime\<close>); they are parameters, so that
  every statement holds whatever they answer.
  \<^item> \<open>FindContainerIdAndStatusByName\<close> takes the pod status and a container name and
    answers an error, or a container id with a status that may be nil;
  \<^item> \<open>ParseContainerId\<close> gives the runtime type of a container id string (the source
    drops its other two results);
  \<^item> \<open>GetRuntimeHandler\<close> answers an error, or a handler that may be nil;
  \<^item> \<open>StopContainer\<close> takes what was done so far, the handler, the container id and
    the grace period, and answers an error or none.
\<close>
record Runtime =
  FindContainerIdAndStatusByName ::
    "ContainerStatus list \<Rightarrow> string \<Rightarrow> string + (string \<times> ContainerStatus option)"
  ParseContainerId :: "string \<Rightarrow> string"
  GetRuntimeHandler :: "string \<Rightarrow> string + string option"
  StopContainer :: "effect list \<Rightarrow> string \<Rightarrow> string \<Rightarrow> int \<Rightarrow> string option"

text \<open>
  The loop of \<^verbatim>\<open>killContainers\<close> over the containers still to visit. A \<^verbatim>\<open>return\<close> of
  the source ends the recursion, a \<^verbatim>\<open>continue\<close> goes on with the rest.
\<close>
fun killContainers_loop ::
  "Runtime \<Rightarrow> ContainerStatus list \<Rightarrow> string \<Rightarrow> string list \<Rightarrow> effect list \<Rightarrow> effect list" where
  "killContainers_loop rt status message [] tr = tr"
| "killContainers_loop rt status message (container # rest) tr =
     (case FindContainerIdAndStatusByName rt status container of
        Inl err \<Rightarrow> tr @ [Klog KError]
      | Inr (containerID, containerStatus) \<Rightarrow>
          (case containerStatus of
             None \<Rightarrow> tr
           | Some st \<Rightarrow>
               if \<not> Running st then tr
               else if containerID \<noteq> []
               then (case GetRuntimeHandler rt (ParseContainerId rt (ContainerID st)) of
                       Inl err \<Rightarrow> killContainers_loop rt status message rest (tr @ [Klog KError])
                     | Inr None \<Rightarrow> killContainers_loop rt status message rest (tr @ [Klog KError])
                     | Inr (Some runtimeHandler) \<Rightarrow>
                         (case StopContainer rt tr runtimeHandler containerID 0 of
                            Some err \<Rightarrow>
                              killContainers_loop rt status message rest
                                (tr @ [StopContainerCall runtimeHandler containerID 0 (Some err),
                                       Klog KError])
                          | None \<Rightarrow>
                              killContainers_loop rt status message rest
                                (tr @ [StopContainerCall runtimeHandler containerID 0 None])))
               else killContainers_loop rt status message rest (tr @ [Klog KWarning])))"

definition killContainers :: "Runtime \<Rightarrow> Pod \<Rightarrow> string \<Rightarrow> effect list \<Rightarrow> effect list" where
  "killContainers rt p message tr = killContainers_loop rt (Status p) message (Containers p) tr"

subsection \<open>Integers of the machine\<close>

text \<open>
  Go's \<^verbatim>\<open>/\<close> on \<^verbatim>\<open>int64\<close> truncates towards zero and wraps on the one overflow
  (\<^verbatim>\<open>MinInt64 / -1\<close>). The source divides by a capacity it has checked to be positive
  and by the constant 100, so the panic on a zero divisor is never reached.
\<close>
definition go_div64 :: "int64 \<Rightarrow> int64 \<Rightarrow> int64" where
  "go_div64 a b = word_of_int (sint a sdiv sint b)"

text \<open>
  The conversion \<^verbatim>\<open>int64(x)\<close> of a \<^verbatim>\<open>float64\<close> drops the fraction (towards zero).
  Outside the range of \<^verbatim>\<open>int64\<close> Go leaves the result to the implementation; the
  wrap-around written here is a placeholder there.
\<close>
definition int64_of_float :: "float64 \<Rightarrow> int64" where
  "int64_of_float x = word_of_int (if 0 \<le> x then \<lfloor>x\<rfloor> else \<lceil>x\<rceil>)"

text \<open>Decimal digits, as \<^verbatim>\<open>%v\<close> prints an integer.\<close>
fun showNat :: "nat \<Rightarrow> string" where
  "showNat n = (if n < 10 then [char_of (48 + n)]
                else showNat (n div 10) @ [char_of (48 + n mod 10)])"

definition showInt :: "int \<Rightarrow> string" where
  "showInt i = (if i < 0 then ''-'' @ showNat (nat (- i)) else showNat (nat i))"

subsection \<open>The BE memory evictor\<close>

record MemoryEvictor =
  resManager :: resmanager
  lastEvictTime :: Time

record podInfo =
  pod :: Pod
  memUsed :: float64

definition memoryReleaseBufferPercent :: int64 where
  "memoryReleaseBufferPercent = 2"

text \<open>
  Modelled from the spec: the constants \<^verbatim>\<open>extension.QoSBE\<close> and
  \<^verbatim>\<open>resourceexecutor.EvictPodByNodeMemoryUsage\<close> are declared in files that are not
  embedded. The spec names the QoS class \<^verbatim>\<open>BE\<close> and the eviction reason
  \<^verbatim>\<open>EvictPodByNodeMemoryUsage\<close>.
\<close>
definition QoSBE :: string where
  "QoSBE = ''BE''"

definition EvictPodByNodeMemoryUsage :: string where
  "EvictPodByNodeMemoryUsage = ''EvictPodByNodeMemoryUsage''"

definition GetPodQoSClassRaw :: "Pod \<Rightarrow> string" where
  "GetPodQoSClassRaw p = QoSClass p"

text \<open>
  The closure given to \<^verbatim>\<open>sort.Slice\<close>, on the two elements that the indices \<^verbatim>\<open>i\<close>
  and \<^verbatim>\<open>j\<close> select. Priorities are \<^verbatim>\<open>*int32\<close> and compare signed; names are Go
  strings and compare byte by byte.
\<close>
definition bePodInfos_less :: "podInfo \<Rightarrow> podInfo \<Rightarrow> bool" where
  "bePodInfos_less i j =
     (if Priority (pod i) \<noteq> None \<and> Priority (pod j) \<noteq> None
         \<and> the (Priority (pod i)) \<noteq> the (Priority (pod j))
      then the (Priority (pod i)) <s the (Priority (pod j))
      else if memUsed i \<noteq> 0 \<and> memUsed j \<noteq> 0
      then memUsed i > memUsed j
      else if memUsed i = 0 \<and> memUsed j = 0
      then Name (pod i) > Name (pod j)
      else memUsed j = 0)"

text \<open>
  The first loop of \<^verbatim>\<open>getSortedBEPodInfos\<close>: the BE pods of the informer, in its order,
  each with its sample. A pod without an entry in the metric map gets Go's zero value.
\<close>
fun collectBEPodInfos :: "Pod list \<Rightarrow> (string \<rightharpoonup> float64) \<Rightarrow> podInfo list" where
  "collectBEPodInfos [] podMetricMap = []"
| "collectBEPodInfos (p # ps) podMetricMap =
     (if GetPodQoSClassRaw p = QoSBE
      then \<lparr>pod = p, memUsed = (case podMetricMap (UID p) of None \<Rightarrow> 0 | Some v \<Rightarrow> v)\<rparr>
             # collectBEPodInfos ps podMetricMap
      else collectBEPodInfos ps podMetricMap)"

text \<open>
  \<^verbatim>\<open>sort.Slice\<close> belongs to Go's library. It is a parameter: a function from a
  comparison and a slice to the slice rearranged.
\<close>
type_synonym SortSlice = "(podInfo \<Rightarrow> podInfo \<Rightarrow> bool) \<Rightarrow> podInfo list \<Rightarrow> podInfo list"

definition getSortedBEPodInfos :: "SortSlice \<Rightarrow> Pod list \<Rightarrow> (string \<rightharpoonup> float64) \<Rightarrow> podInfo list" where
  "getSortedBEPodInfos sortSlice allPods podMetricMap =
     sortSlice bePodInfos_less (collectBEPodInfos allPods podMetricMap)"

text \<open>
  The loop of \<^verbatim>\<open>killAndEvictBEPods\<close>; its state is \<^verbatim>\<open>memoryReleased\<close>,
  \<^verbatim>\<open>killedPods\<close> and the effects.
\<close>
fun killLoop ::
  "Runtime \<Rightarrow> string \<Rightarrow> int64 \<Rightarrow> podInfo list \<Rightarrow> int64 \<times> Pod list \<times> effect list
     \<Rightarrow> int64 \<times> Pod list \<times> effect list" where
  "killLoop rt message memoryNeedRelease [] st = st"
| "killLoop rt message memoryNeedRelease (bePod # rest) (memoryReleased, killedPods, tr) =
     (if memoryNeedRelease \<le>s memoryReleased then (memoryReleased, killedPods, tr)
      else killLoop rt message memoryNeedRelease rest
             (if memUsed bePod \<noteq> 0 then memoryReleased + int64_of_float (memUsed bePod)
              else memoryReleased,
              killedPods @ [pod bePod],
              killContainers rt (pod bePod) (message @ '', kill pod: '' @ Name (pod bePod)) tr))"

text \<open>
  What one tick of the evictor reads from outside: the clock at the cool-down check
  (\<open>now0\<close>) and after the eviction wave (\<open>now1\<close>), the informer, the metric cache, and
  the collaborators that answer calls.
\<close>
record ResourceThresholdStrategy =
  Enable :: "bool option"
  MemoryEvictThresholdPercent :: "int64 option"
  MemoryEvictLowerPercent :: "int64 option"

text \<open>
  \<^verbatim>\<open>NodeSLOSpec\<close> is declared outside the files embedded. Its fields are pointers to
  strategies; \<open>OtherStrategies\<close> tells whether any of them besides
  \<open>ResourceUsedThresholdWithBE\<close> is set, which is all that the comparison with the
  empty spec needs.
\<close>
record NodeSLOSpec =
  ResourceUsedThresholdWithBE :: "ResourceThresholdStrategy option"
  OtherStrategies :: bool

record NodeSLO =
  Spec :: NodeSLOSpec

text \<open>\<open>MemoryCapacity\<close> is \<^verbatim>\<open>node.Status.Capacity.Memory().Value()\<close>.\<close>
record Node =
  MemoryCapacity :: int64

record Env =
  now0 :: Time
  now1 :: Time
  GetNodeSLO :: "NodeSLO option"
  collectAllPodMetricsLast :: "string \<rightharpoonup> float64"
  GetNode :: "Node option"
  GetAllPods :: "Pod list"
  BuildQueryMeta :: "string option"
    \<comment> \<open>the error of \<^verbatim>\<open>NodeMemoryUsageMetric.BuildQueryMeta(nil)\<close>, if any\<close>
  collectorNodeMetricLast :: "string + float64"
  sortSlice :: SortSlice
  clusterAPI :: ClusterAPI
  runtime :: Runtime

definition killAndEvictBEPods ::
  "Env \<Rightarrow> MemoryEvictor \<Rightarrow> (string \<rightharpoonup> float64) \<Rightarrow> int64 \<Rightarrow> effect list
     \<Rightarrow> MemoryEvictor \<times> effect list" where
  "killAndEvictBEPods env m podMetrics memoryNeedRelease tr =
     (let bePodInfos = getSortedBEPodInfos (sortSlice env) (GetAllPods env) podMetrics;
          message = ''killAndEvictBEPods for node('' @ nodeName (resManager m)
                      @ ''), need to release memory: '' @ showInt (sint memoryNeedRelease)
      in case killLoop (runtime env) message memoryNeedRelease bePodInfos (0, [], tr) of
           (memoryReleased, killedPods, tr1) \<Rightarrow>
             (case evictPodsIfNotEvicted (clusterAPI env) killedPods EvictPodByNodeMemoryUsage message
                     (resManager m, tr1) of
                (r, tr2) \<Rightarrow> (m\<lparr>resManager := r, lastEvictTime := now1 env\<rparr>, tr2 @ [Klog KInfo])))"

text \<open>
  \<^verbatim>\<open>isFeatureDisabled\<close> answers the pair \<^verbatim>\<open>(bool, error)\<close>.
\<close>
definition isFeatureDisabled :: "NodeSLO option \<Rightarrow> Feature \<Rightarrow> bool \<times> string option" where
  "isFeatureDisabled nodeSLO feature =
     (case nodeSLO of
        None \<Rightarrow> (True, Some ''cannot parse feature config for invalid nodeSLO'')
      | Some slo \<Rightarrow>
          if ResourceUsedThresholdWithBE (Spec slo) = None \<and> \<not> OtherStrategies (Spec slo)
          then (True, Some ''cannot parse feature config for invalid nodeSLO'')
          else if feature = BECPUSuppress \<or> feature = BEMemoryEvict \<or> feature = BECPUEvict
          then (case ResourceUsedThresholdWithBE (Spec slo) of
                  None \<Rightarrow> (True, Some ''cannot parse feature config for invalid nodeSLO'')
                | Some strategy \<Rightarrow>
                    (case Enable strategy of
                       None \<Rightarrow> (True, Some ''cannot parse feature config for invalid nodeSLO'')
                     | Some enable \<Rightarrow> (\<not> enable, None)))
          else (True, Some ''cannot parse feature config for unsupported feature''))"

text \<open>The three computations of the tick, named after the variables they define.\<close>
definition lowerPercent :: "ResourceThresholdStrategy \<Rightarrow> int64 \<Rightarrow> int64" where
  "lowerPercent thresholdConfig thresholdPercent =
     (case MemoryEvictLowerPercent thresholdConfig of
        Some l \<Rightarrow> l
      | None \<Rightarrow> thresholdPercent - memoryReleaseBufferPercent)"

definition nodeMemoryUsage :: "float64 \<Rightarrow> int64 \<Rightarrow> int64" where
  "nodeMemoryUsage nodeMemoryUsed memoryCapacity =
     go_div64 (int64_of_float nodeMemoryUsed * 100) memoryCapacity"

definition memoryNeedRelease :: "int64 \<Rightarrow> int64 \<Rightarrow> int64 \<Rightarrow> int64" where
  "memoryNeedRelease memoryCapacity usage lower =
     go_div64 (memoryCapacity * (usage - lower)) 100"

text \<open>
  The body of \<^verbatim>\<open>memoryEvict\<close> between its first log line and the deferred one. After
  \<^verbatim>\<open>isFeatureDisabled\<close> has answered without error, the NodeSLO and its threshold
  strategy are not nil (lemma \<open>isFeatureDisabled_no_error\<close>), so \<open>the\<close> reads them as
  the source dereferences them. The cool-down test is
  \<^verbatim>\<open>time.Now().Before(m.lastEvictTime.Add(time.Duration(cool) * time.Second))\<close>, with the
  product taken in \<^verbatim>\<open>int64\<close>.
\<close>
definition memoryEvict_body :: "Env \<Rightarrow> MemoryEvictor \<Rightarrow> effect list \<Rightarrow> MemoryEvictor \<times> effect list" where
  "memoryEvict_body env m tr =
     (if now0 env < time_Add (lastEvictTime m)
        (MemoryEvictCoolTimeSeconds (config (resManager m)) * time_Second)
      then (m, tr @ [Klog (KV 5)])
      else
        (case isFeatureDisabled (GetNodeSLO env) BEMemoryEvict of
           (disabled, Some err) \<Rightarrow> (m, tr @ [Klog KError])
         | (True, None) \<Rightarrow> (m, tr @ [Klog (KV 4)])
         | (False, None) \<Rightarrow>
             (let thresholdConfig = the (ResourceUsedThresholdWithBE (Spec (the (GetNodeSLO env))))
              in case MemoryEvictThresholdPercent thresholdConfig of
                   None \<Rightarrow> (m, tr @ [Klog KWarning])
                 | Some thresholdPercent \<Rightarrow>
                     if thresholdPercent <s 0 then (m, tr @ [Klog KWarning])
                     else if thresholdPercent \<le>s lowerPercent thresholdConfig thresholdPercent
                     then (m, tr @ [Klog KWarning])
                     else
                       (case GetNode env of
                          None \<Rightarrow> (m, tr @ [Klog KWarning])
                        | Some node \<Rightarrow>
                            if MemoryCapacity node \<le>s 0 then (m, tr @ [Klog KWarning])
                            else
                              (case BuildQueryMeta env of
                                 Some err \<Rightarrow> (m, tr @ [Klog KWarning])
                               | None \<Rightarrow>
                                   (case collectorNodeMetricLast env of
                                      Inl err \<Rightarrow> (m, tr @ [Klog KWarning])
                                    | Inr nodeMemoryUsed \<Rightarrow>
                                        if nodeMemoryUsage nodeMemoryUsed (MemoryCapacity node)
                                             <s thresholdPercent
                                        then (m, tr @ [Klog (KV 5)])
                                        else killAndEvictBEPods env m (collectAllPodMetricsLast env)
                                               (memoryNeedRelease (MemoryCapacity node)
                                                  (nodeMemoryUsage nodeMemoryUsed (MemoryCapacity node))
                                                  (lowerPercent thresholdConfig thresholdPercent))
                                               (tr @ [Klog KInfo])))))))"

definition memoryEvict :: "Env \<Rightarrow> MemoryEvictor \<times> effect list \<Rightarrow> MemoryEvictor \<times> effect list" where
  "memoryEvict env = (\<lambda>(m, tr).
     (case memoryEvict_body env m (tr @ [Klog (KV 5)]) of
        (m', tr') \<Rightarrow> (m', tr' @ [Klog (KV 5)])))"

definition NewMemoryEvictor :: "resmanager \<Rightarrow> Time \<Rightarrow> MemoryEvictor" where
  "NewMemoryEvictor mgr now = \<lparr>resManager = mgr, lastEvictTime = now\<rparr>"

subsection \<open>Starting the manager\<close>

text \<open>
  \<^verbatim>\<open>Run\<close> up to the point where it blocks on the stop channel. Two answers come from
  outside: whether \<^verbatim>\<open>cache.WaitForCacheSync\<close> saw the informer synced before the stop
  channel fired, and the error of \<^verbatim>\<open>plugins.StartPlugins\<close>, on which
  \<^verbatim>\<open>utilruntime.Must\<close> panics. Starting a reconciler is the effect \<open>RunFeature\<close> or
  \<open>RunFeatureWithInit\<close>.
\<close>
datatype RunResult = ReturnNil | ReturnError string | Panic string

record RunEnv =
  WaitForCacheSync :: bool
  StartPluginsError :: "string option"

definition Run :: "resmanager \<Rightarrow> RunEnv \<Rightarrow> RunResult \<times> effect list" where
  "Run r renv =
     (if collectResUsedIntervalSeconds r <s 1 then (ReturnNil, [Klog KInfo])
      else
        (let tr = [Klog KInfo, PodsEvictedRun, GoRunQOSGreyCtrlPlugins]
         in if \<not> WaitForCacheSync renv
            then (ReturnError ''time out waiting for states informer caches to sync'', tr)
            else
              (let tr' = tr @
                     [RunFeatureWithInit ''cgroupResourceReconcile'' [CgroupReconcile]
                        (ReconcileIntervalSeconds (config r)),
                      RunFeature ''cpuSuppress'' [BECPUSuppress]
                        (CPUSuppressIntervalSeconds (config r)),
                      RunFeatureWithInit ''cpuBurst'' [CPUBurst]
                        (ReconcileIntervalSeconds (config r)),
                      RunFeatureWithInit ''systemConfigReconcile'' [SystemConfig]
                        (ReconcileIntervalSeconds (config r)),
                      RunFeature ''cpuEvictor'' [BECPUEvict]
                        (CPUEvictIntervalSeconds (config r)),
                      RunFeature ''memoryEvictor'' [BEMemoryEvict]
                        (MemoryEvictIntervalSeconds (config r)),
                      RunFeatureWithInit ''rdtResCtrl'' [RdtResctrl]
                        (ReconcileIntervalSeconds (config r)),
                      RunFeatureWithInit ''blkioReconcile'' [BlkIOReconcile]
                        (ReconcileIntervalSeconds (config r)),
                      Klog KInfo,
                      SetupPlugins,
                      StartPlugins (StartPluginsError renv)]
               in case StartPluginsError renv of
                    Some err \<Rightarrow> (Panic err, tr')
                  | None \<Rightarrow> (ReturnNil, tr' @ [Klog KInfo, Klog KInfo]))))"

subsection \<open>Notions used to state the properties\<close>

fun is_EvictCall :: "effect \<Rightarrow> bool" where
  "is_EvictCall (EvictCall ns n u v err) = True"
| "is_EvictCall e = False"

text \<open>An eviction call for the UID \<open>uid\<close>; one that the cluster API accepted.\<close>
fun is_EvictCall_of :: "string \<Rightarrow> effect \<Rightarrow> bool" where
  "is_EvictCall_of uid (EvictCall ns n u v err) = (u = uid)"
| "is_EvictCall_of uid e = False"

fun is_successful_EvictCall_of :: "string \<Rightarrow> effect \<Rightarrow> bool" where
  "is_successful_EvictCall_of uid (EvictCall ns n u v err) = (u = uid \<and> err = None)"
| "is_successful_EvictCall_of uid e = False"


fun is_StopContainerCall :: "effect \<Rightarrow> bool" where
  "is_StopContainerCall (StopContainerCall h c g err) = True"
| "is_StopContainerCall e = False"

fun is_reconciler_start :: "effect \<Rightarrow> bool" where
  "is_reconciler_start (RunFeature n fs i) = True"
| "is_reconciler_start (RunFeatureWithInit n fs i) = True"
| "is_reconciler_start e = False"

text \<open>
  What happens to the evicted set over time: calls of \<^verbatim>\<open>evictPodIfNotEvicted\<close> with a
  pod, a reason and a message, and entries that expire.
\<close>
datatype barrier_step = EvictIfNotEvicted Pod string string | Expire "string list"

fun run_steps ::
  "ClusterAPI \<Rightarrow> barrier_step list \<Rightarrow> resmanager \<times> effect list \<Rightarrow> resmanager \<times> effect list" where
  "run_steps api [] w = w"
| "run_steps api (EvictIfNotEvicted p reason message # steps) w =
     run_steps api steps (evictPodIfNotEvicted api p reason message w)"
| "run_steps api (Expire ks # steps) (r, tr) =
     run_steps api steps (r\<lparr>podsEvicted := cache_expire (podsEvicted r) ks\<rparr>, tr)"

fun expires :: "string \<Rightarrow> barrier_step \<Rightarrow> bool" where
  "expires uid (Expire ks) = (uid \<in> set ks)"
| "expires uid s = False"

text \<open>
  The ticks of one evictor, one after the other, each with what it reads from outside;
  the result lists the evictor after each tick.
\<close>
fun run_ticks :: "Env list \<Rightarrow> MemoryEvictor \<times> effect list \<Rightarrow> (MemoryEvictor \<times> effect list) list" where
  "run_ticks [] w = []"
| "run_ticks (env # envs) w = memoryEvict env w # run_ticks envs (memoryEvict env w)"

text \<open>
  The clock does not run backwards: from the reading \<open>t\<close> on, every tick reads
  \<open>now0\<close>, then \<open>now1\<close>, each no earlier than the reading before.
\<close>
fun clock_monotone :: "Time \<Rightarrow> Env list \<Rightarrow> bool" where
  "clock_monotone t [] = True"
| "clock_monotone t (env # envs) = (t \<le> now0 env \<and> now0 env \<le> now1 env \<and> clock_monotone (now1 env) envs)"

text \<open>
  The victims that the loop of \<^verbatim>\<open>killAndEvictBEPods\<close> credits: the sample of a pod
  counts when it is not zero.
\<close>
definition credit :: "podInfo \<Rightarrow> int64" where
  "credit bePod = (if memUsed bePod \<noteq> 0 then int64_of_float (memUsed bePod) else 0)"

definition released :: "podInfo list \<Rightarrow> int64" where
  "released bePods = sum_list (map credit bePods)"

text \<open>
  The contract of \<^verbatim>\<open>sort.Slice\<close>: the result is a rearrangement of the slice, and when
  the comparison is a strict weak order on its elements, no element is followed by one
  that the comparison puts before it.
\<close>
definition strict_weak_order_on :: "'a set \<Rightarrow> ('a \<Rightarrow> 'a \<Rightarrow> bool) \<Rightarrow> bool" where
  "strict_weak_order_on S lt \<longleftrightarrow>
     (\<forall>a\<in>S. \<not> lt a a)
     \<and> (\<forall>a\<in>S. \<forall>b\<in>S. \<forall>c\<in>S. lt a b \<and> lt b c \<longrightarrow> lt a c)
     \<and> (\<forall>a\<in>S. \<forall>b\<in>S. \<forall>c\<in>S.
          \<not> lt a b \<and> \<not> lt b a \<and> \<not> lt b c \<and> \<not> lt c b \<longrightarrow> \<not> lt a c \<and> \<not> lt c a)"

definition sort_Slice_contract :: "SortSlice \<Rightarrow> bool" where
  "sort_Slice_contract srt \<longleftrightarrow>
     (\<forall>lt xs. mset (srt lt xs) = mset xs
        \<and> (strict_weak_order_on (set xs) lt \<longrightarrow> sorted_wrt (\<lambda>a b. \<not> lt b a) (srt lt xs)))"

text \<open>
  An insertion sort, one function that meets the contract. \<open>insert_desc\<close> keeps the
  part already sorted in reverse, its last element first.
\<close>
fun insert_desc :: "('a \<Rightarrow> 'a \<Rightarrow> bool) \<Rightarrow> 'a \<Rightarrow> 'a list \<Rightarrow> 'a list" where
  "insert_desc lt x [] = [x]"
| "insert_desc lt x (y # ys) = (if lt x y then y # insert_desc lt x ys else x # y # ys)"

definition insertionSort :: "('a \<Rightarrow> 'a \<Rightarrow> bool) \<Rightarrow> 'a list \<Rightarrow> 'a list" where
  "insertionSort lt xs = rev (foldl (\<lambda>acc x. insert_desc lt x acc) [] xs)"




text \<open>
  \<^verbatim>\<open>Run\<close> starts the CPU evictor and the memory evictor as separate runners on the same
  \<^verbatim>\<open>resmanager\<close>, so two calls of \<^verbatim>\<open>evictPodIfNotEvicted\<close> can overlap. The source
  takes no lock around its three statements: the lookup in the evicted set, the call of
  \<^verbatim>\<open>evictPod\<close>, and the insertion. \<open>call_step\<close> runs the next of these statements for
  one caller, on the shared \<^verbatim>\<open>resmanager\<close> and effects; \<open>call_point\<close> says where the
  caller stands, \<open>AtInsert\<close> holding the value of \<^verbatim>\<open>success\<close>.
\<close>
datatype call_point = AtLookup | AtEvict | AtInsert bool | Returned

fun call_step ::
  "ClusterAPI \<Rightarrow> Pod \<times> string \<times> string \<Rightarrow> call_point \<times> resmanager \<times> effect list
     \<Rightarrow> call_point \<times> resmanager \<times> effect list" where
  "call_step api (p, reason, message) (AtLookup, r, tr) =
     (case cache_Get (podsEvicted r) (UID p) of
        Some _ \<Rightarrow> (Returned, r, tr @ [Klog (KV 5)])
      | None \<Rightarrow> (AtEvict, r, tr))"
| "call_step api (p, reason, message) (AtEvict, r, tr) =
     (case evictPod api r p reason message tr of
        (success, tr') \<Rightarrow> (AtInsert success, r, tr'))"
| "call_step api (p, reason, message) (AtInsert success, r, tr) =
     (if success
      then (Returned, r\<lparr>podsEvicted := cache_SetDefault (podsEvicted r) (UID p) (UID p)\<rparr>, tr)
      else (Returned, r, tr))"
| "call_step api (p, reason, message) (Returned, r, tr) = (Returned, r, tr)"

text \<open>
  Two callers under a schedule: \<open>False\<close> lets the first caller run its next statement,
  \<open>True\<close> the second.
\<close>
fun interleave ::
  "ClusterAPI \<Rightarrow> Pod \<times> string \<times> string \<Rightarrow> Pod \<times> string \<times> string \<Rightarrow> bool list
     \<Rightarrow> call_point \<times> call_point \<times> resmanager \<times> effect list
     \<Rightarrow> call_point \<times> call_point \<times> resmanager \<times> effect list" where
  "interleave api c1 c2 [] s = s"
| "interleave api c1 c2 (False # schedule) (a, b, w) =
     (case call_step api c1 (a, w) of (a', w') \<Rightarrow> interleave api c1 c2 schedule (a', b, w'))"
| "interleave api c1 c2 (True # schedule) (a, b, w) =
     (case call_step api c2 (b, w) of (b', w') \<Rightarrow> interleave api c1 c2 schedule (a, b', w'))"

text \<open>
  A container makes \<^verbatim>\<open>killContainers\<close> return: its status is not found, or the status
  found is nil or has no \<^verbatim>\<open>Running\<close> state.
\<close>
definition aborts_pod :: "Runtime \<Rightarrow> ContainerStatus list \<Rightarrow> string \<Rightarrow> bool" where
  "aborts_pod rt status container =
     (case FindContainerIdAndStatusByName rt status container of
        Inl err \<Rightarrow> True
      | Inr (containerID, None) \<Rightarrow> True
      | Inr (containerID, Some st) \<Rightarrow> \<not> Running st)"

text \<open>
  The runtime handler for the container id of a status; \<open>None\<close> when the runtime type is
  unknown (\<^verbatim>\<open>GetRuntimeHandler\<close> answers an error or a nil handler).
\<close>
definition handler_of :: "Runtime \<Rightarrow> ContainerStatus \<Rightarrow> string option" where
  "handler_of rt st =
     (case GetRuntimeHandler rt (ParseContainerId rt (ContainerID st)) of
        Inl err \<Rightarrow> None
      | Inr None \<Rightarrow> None
      | Inr (Some runtimeHandler) \<Rightarrow> Some runtimeHandler)"

text \<open>
  All guards of the tick before the pressure gate pass: the cool-down is over, the NodeSLO
  carries the threshold strategy \<open>thresholdConfig\<close> with \<open>Enable\<close> true and the
  threshold \<open>T\<close>, \<open>T\<close> is not negative, the lower percent is below \<open>T\<close>, the node
  is there with the positive capacity \<open>capacity\<close>, and the node metric query answers
  \<open>used\<close>.
\<close>
definition tick_guards ::
  "Env \<Rightarrow> MemoryEvictor \<Rightarrow> ResourceThresholdStrategy \<Rightarrow> int64 \<Rightarrow> int64 \<Rightarrow> float64 \<Rightarrow> bool" where
  "tick_guards env m thresholdConfig T capacity used \<longleftrightarrow>
     \<not> now0 env < time_Add (lastEvictTime m)
        (MemoryEvictCoolTimeSeconds (config (resManager m)) * time_Second)
     \<and> (case GetNodeSLO env of
          None \<Rightarrow> False
        | Some slo \<Rightarrow> ResourceUsedThresholdWithBE (Spec slo) = Some thresholdConfig)
     \<and> Enable thresholdConfig = Some True
     \<and> MemoryEvictThresholdPercent thresholdConfig = Some T
     \<and> \<not> T <s 0
     \<and> lowerPercent thresholdConfig T <s T
     \<and> (case GetNode env of None \<Rightarrow> False | Some node \<Rightarrow> MemoryCapacity node = capacity)
     \<and> 0 <s capacity
     \<and> BuildQueryMeta env = None
     \<and> collectorNodeMetricLast env = Inr used"


text \<open>The part of the comparison that follows the test of the priorities.\<close>
definition less_by_sample :: "podInfo \<Rightarrow> podInfo \<Rightarrow> bool" where
  "less_by_sample i j =
     (if memUsed i \<noteq> 0 \<and> memUsed j \<noteq> 0 then memUsed i > memUsed j
      else if memUsed i = 0 \<and> memUsed j = 0 then Name (pod i) > Name (pod j)
      else memUsed j = 0)"

text \<open>
  The first \<open>k\<close> victims are killed and no more: each of them while the total released
  was still below the budget, and the loop ends because the total has reached the budget
  or because no victim is left.
\<close>
definition drained :: "int64 \<Rightarrow> podInfo list \<Rightarrow> nat \<Rightarrow> bool" where
  "drained need victims k \<longleftrightarrow>
     k \<le> length victims
     \<and> list_all (\<lambda>j. released (take j victims) <s need) [0..<k]
     \<and> (k = length victims \<or> need \<le>s released (take k victims))"

subsection \<open>Sample inputs\<close>

definition sample_config :: Config where
  "sample_config = \<lparr>ReconcileIntervalSeconds = 1, CPUSuppressIntervalSeconds = 1,
     CPUEvictIntervalSeconds = 1, MemoryEvictIntervalSeconds = 1,
     MemoryEvictCoolTimeSeconds = 60\<rparr>"

definition sample_resmanager :: resmanager where
  "sample_resmanager = \<lparr>config = sample_config, collectResUsedIntervalSeconds = 1,
     nodeName = ''node-1'', podsEvicted = Map.empty, evictVersion = ''v1''\<rparr>"

definition sample_pod :: Pod where
  "sample_pod = \<lparr>Namespace = ''default'', Name = ''be-a'', UID = ''uid-a'', QoSClass = ''BE'',
     Priority = Some 1, Containers = [''main''],
     Status = [\<lparr>StatusName = ''main'', ContainerID = ''containerd://c1'', Running = True\<rparr>]\<rparr>"

text \<open>A cluster API that accepts every eviction, and one that refuses every eviction.\<close>
definition api_accepts :: ClusterAPI where
  "api_accepts = (\<lambda>tr ns n u v. None)"

definition api_refuses :: ClusterAPI where
  "api_refuses = (\<lambda>tr ns n u v. Some ''refused'')"

text \<open>
  A container runtime for the examples: the status is looked up by name, the container id
  is \<^verbatim>\<open><runtime>://<id>\<close>, the only runtime known is \<^verbatim>\<open>containerd\<close>, and stopping
  the container \<^verbatim>\<open>c2\<close> fails.
\<close>
definition sample_runtime :: Runtime where
  "sample_runtime = \<lparr>
     FindContainerIdAndStatusByName = (\<lambda>status name.
       case find (\<lambda>st. StatusName st = name) status of
         None \<Rightarrow> Inl ''unable to find ID for container''
       | Some st \<Rightarrow> Inr (drop 3 (dropWhile (\<lambda>c. c \<noteq> CHR '':'') (ContainerID st)), Some st)),
     ParseContainerId = takeWhile (\<lambda>c. c \<noteq> CHR '':''),
     GetRuntimeHandler = (\<lambda>runtimeType.
       if runtimeType = ''containerd'' then Inr (Some ''containerd'')
       else Inl ''runtime not supported''),
     StopContainer = (\<lambda>tr runtimeHandler containerID grace.
       if containerID = ''c2'' then Some ''stop failed'' else None)\<rparr>"

definition sample_status :: "ContainerStatus list" where
  "sample_status =
     [\<lparr>StatusName = ''main'', ContainerID = ''containerd://c1'', Running = True\<rparr>,
      \<lparr>StatusName = ''side'', ContainerID = ''containerd://c2'', Running = True\<rparr>,
      \<lparr>StatusName = ''odd'', ContainerID = ''other://c3'', Running = True\<rparr>,
      \<lparr>StatusName = ''idle'', ContainerID = ''containerd://c4'', Running = False\<rparr>]"

text \<open>A pod with the given containers and the status of the examples.\<close>
definition pod_with :: "string list \<Rightarrow> Pod" where
  "pod_with cs = sample_pod\<lparr>Containers := cs, Status := sample_status\<rparr>"

definition idle_pod :: Pod where
  "idle_pod = sample_pod\<lparr>Containers := [''idle'', ''gone''],
     Status := [\<lparr>StatusName = ''idle'', ContainerID = ''containerd://c4'', Running = False\<rparr>]\<rparr>"

text \<open>
  The first scenario of the spec: a node of 100 GiB with 80 GiB used, thresholds 70 and 60,
  and three BE pods. The cool-down of 60 seconds since the evictor was built at time 0 is
  over at \<open>now0\<close>.
\<close>
definition sample_strategy :: ResourceThresholdStrategy where
  "sample_strategy = \<lparr>Enable = Some True, MemoryEvictThresholdPercent = Some 70,
     MemoryEvictLowerPercent = Some 60\<rparr>"

definition sample_slo :: NodeSLO where
  "sample_slo = \<lparr>Spec = \<lparr>ResourceUsedThresholdWithBE = Some sample_strategy,
     OtherStrategies = False\<rparr>\<rparr>"

definition scenario_pods :: "Pod list" where
  "scenario_pods =
     [sample_pod\<lparr>Name := ''A'', UID := ''uid-a'', Priority := Some 100\<rparr>,
      sample_pod\<lparr>Name := ''B'', UID := ''uid-b'', Priority := Some 100\<rparr>,
      sample_pod\<lparr>Name := ''C'', UID := ''uid-c'', Priority := Some 50\<rparr>]"

definition sample_env :: Env where
  "sample_env = \<lparr>
     now0 = 100000000000,
     now1 = 101000000000,
     GetNodeSLO = Some sample_slo,
     collectAllPodMetricsLast =
       [''uid-a'' \<mapsto> 4294967296, ''uid-b'' \<mapsto> 10737418240, ''uid-c'' \<mapsto> 1073741824],
     GetNode = Some \<lparr>MemoryCapacity = 107374182400\<rparr>,
     GetAllPods = scenario_pods,
     BuildQueryMeta = None,
     collectorNodeMetricLast = Inr 85899345920,
     sortSlice = insertionSort,
     clusterAPI = api_accepts,
     runtime = sample_runtime\<rparr>"

definition sample_evictor :: MemoryEvictor where
  "sample_evictor = NewMemoryEvictor sample_resmanager 0"

definition slo_with :: "ResourceThresholdStrategy \<Rightarrow> NodeSLO" where
  "slo_with thresholdConfig =
     \<lparr>Spec = \<lparr>ResourceUsedThresholdWithBE = Some thresholdConfig, OtherStrategies = False\<rparr>\<rparr>"

text \<open>The threshold 70 with the lower percent unset; the thresholds 50 and 60, which are invalid.\<close>
definition unset_strategy :: ResourceThresholdStrategy where
  "unset_strategy = sample_strategy\<lparr>MemoryEvictLowerPercent := None\<rparr>"

definition invalid_strategy :: ResourceThresholdStrategy where
  "invalid_strategy = sample_strategy\<lparr>MemoryEvictThresholdPercent := Some 50\<rparr>"

text \<open>A tick 10 seconds after the evictor was built, within the cool-down of 60 seconds.\<close>
definition cooling_env :: Env where
  "cooling_env = sample_env\<lparr>now0 := 10000000000, now1 := 10000000001\<rparr>"

text \<open>
  Three BE pods whose priorities are present only in part: A with priority 1 and sample 5,
  B with priority 2 and sample 10, C without priority and with sample 7.
\<close>
definition cycle_pods :: "Pod list" where
  "cycle_pods =
     [sample_pod\<lparr>Name := ''a'', UID := ''uid-a'', Priority := Some 1\<rparr>,
      sample_pod\<lparr>Name := ''b'', UID := ''uid-b'', Priority := Some 2\<rparr>,
      sample_pod\<lparr>Name := ''c'', UID := ''uid-c'', Priority := None\<rparr>]"

definition cycle_metrics :: "string \<rightharpoonup> float64" where
  "cycle_metrics = [''uid-a'' \<mapsto> 5, ''uid-b'' \<mapsto> 10, ''uid-c'' \<mapsto> 7]"

definition pod_A :: podInfo where
  "pod_A = \<lparr>pod = sample_pod\<lparr>Name := ''a'', UID := ''uid-a'', Priority := Some 1\<rparr>, memUsed = 5\<rparr>"

definition pod_B :: podInfo where
  "pod_B = \<lparr>pod = sample_pod\<lparr>Name := ''b'', UID := ''uid-b'', Priority := Some 2\<rparr>, memUsed = 10\<rparr>"

definition pod_C :: podInfo where
  "pod_C = \<lparr>pod = sample_pod\<lparr>Name := ''c'', UID := ''uid-c'', Priority := None\<rparr>, memUsed = 7\<rparr>"

text \<open>A second function that meets the contract of \<^verbatim>\<open>sort.Slice\<close>.\<close>
definition insertionSort_rev :: "('a \<Rightarrow> 'a \<Rightarrow> bool) \<Rightarrow> 'a list \<Rightarrow> 'a list" where
  "insertionSort_rev lt xs = insertionSort lt (rev xs)"

text \<open>
  A node of 16 GiB whose usage sample has a fraction: 12025908428.875 bytes, just above
  70 percent of the capacity (12025908428.8 bytes).
\<close>
definition fraction_env :: Env where
  "fraction_env = sample_env\<lparr>GetNode := Some \<lparr>MemoryCapacity = 17179869184\<rparr>,
     collectorNodeMetricLast := Inr (96207267431 / 8)\<rparr>"

text \<open>
  An evictor whose cool-down option is 9223372037 seconds; in nanoseconds this is beyond
  the range of \<^verbatim>\<open>int64\<close>.
\<close>
definition overflow_evictor :: MemoryEvictor where
  "overflow_evictor =
     NewMemoryEvictor
       (sample_resmanager\<lparr>config := sample_config\<lparr>MemoryEvictCoolTimeSeconds := 9223372037\<rparr>\<rparr>) 0"

section \<open>Properties\<close>

subsection \<open>The eviction executor\<close>

text \<open>
  Each step that is not an expiry keeps this number: the successful eviction calls for
  the UID so far, plus one while the UID is not in the evicted set.
\<close>
definition evict_bound :: "string \<Rightarrow> resmanager \<times> effect list \<Rightarrow> nat" where
  "evict_bound uid w =
     length (filter (is_successful_EvictCall_of uid) (snd w))
       + (if cache_Get (podsEvicted (fst w)) uid = None then 1 else 0)"

lemma evictPod_cases:
  "evictPod api r p reason message tr =
     (let err = api (tr @ [AuditRecord (Namespace p) (Name p) reason message])
                  (Namespace p) (Name p) (UID p) (evictVersion r)
      in (err = None,
          tr @ [AuditRecord (Namespace p) (Name p) reason message,
                EvictCall (Namespace p) (Name p) (UID p) (evictVersion r) err]
             @ (if err = None
                then [Eventf (UID p) EventTypeWarning evictPodSuccess (podEvictMessage p reason message),
                      RecordPodEviction (Namespace p) (Name p) reason, Klog KInfo]
                else [Eventf (UID p) EventTypeWarning evictPodFail (podEvictMessage p reason message),
                      Klog KError])))"
  by (simp add: evictPod_def Let_def)

lemma evict_bound_step:
  "evict_bound uid (evictPodIfNotEvicted api p reason message w) = evict_bound uid w"
  by (cases w)
     (auto simp: evict_bound_def evictPodIfNotEvicted_def evictPod_cases Let_def
                 cache_Get_def cache_SetDefault_def split: option.splits)

lemma calls_step_present:
  "cache_Get (podsEvicted (fst w)) uid \<noteq> None \<Longrightarrow>
     cache_Get (podsEvicted (fst (evictPodIfNotEvicted api p reason message w))) uid \<noteq> None
     \<and> filter (is_EvictCall_of uid) (snd (evictPodIfNotEvicted api p reason message w))
         = filter (is_EvictCall_of uid) (snd w)"
  by (cases w)
     (auto simp: evictPodIfNotEvicted_def evictPod_cases Let_def
                 cache_Get_def cache_SetDefault_def split: option.splits)

lemma evict_bound_run:
  "\<not> list_ex (expires uid) steps \<Longrightarrow> evict_bound uid (run_steps api steps w) = evict_bound uid w"
proof (induction steps arbitrary: w)
  case Nil
  then show ?case by simp
next
  case (Cons s steps)
  show ?case
  proof (cases s)
    case (EvictIfNotEvicted p reason message)
    with Cons show ?thesis by (simp add: evict_bound_step)
  next
    case (Expire ks)
    with Cons show ?thesis
      by (cases w) (simp add: evict_bound_def cache_expire_def cache_Get_def)
  qed
qed

lemma calls_run_present:
  "\<not> list_ex (expires uid) steps \<Longrightarrow> cache_Get (podsEvicted (fst w)) uid \<noteq> None \<Longrightarrow>
     filter (is_EvictCall_of uid) (snd (run_steps api steps w)) = filter (is_EvictCall_of uid) (snd w)"
proof (induction steps arbitrary: w)
  case Nil
  then show ?case by simp
next
  case (Cons s steps)
  show ?case
  proof (cases s)
    case (EvictIfNotEvicted p reason message)
    with Cons.prems calls_step_present[of w uid api p reason message]
    show ?thesis using Cons.IH[of "evictPodIfNotEvicted api p reason message w"] by simp
  next
    case (Expire ks)
    with Cons.prems show ?thesis
      using Cons.IH[of "(fst w\<lparr>podsEvicted := cache_expire (podsEvicted (fst w)) ks\<rparr>, snd w)"]
      by (cases w) (simp add: cache_expire_def cache_Get_def)
  qed
qed

lemma evictPodIfNotEvicted_present:
  "cache_Get (podsEvicted r) (UID p) \<noteq> None \<Longrightarrow>
     evictPodIfNotEvicted api p reason message (r, tr) = (r, tr @ [Klog (KV 5)])"
  by (auto simp: evictPodIfNotEvicted_def)

lemma evictPodIfNotEvicted_absent:
  "cache_Get (podsEvicted r) (UID p) = None \<Longrightarrow>
     evictPodIfNotEvicted api p reason message (r, tr) =
       (if fst (evictPod api r p reason message tr)
        then r\<lparr>podsEvicted := cache_SetDefault (podsEvicted r) (UID p) (UID p)\<rparr>
        else r,
        snd (evictPod api r p reason message tr))"
  by (simp add: evictPodIfNotEvicted_def split: prod.splits)

text \<open>
  The three statements of one caller, run without another caller in between, are
  \<^verbatim>\<open>evictPodIfNotEvicted\<close>; two callers scheduled one after the other are two calls in a
  row.
\<close>
lemma call_steps_alone:
  "call_step api (p, reason, message)
     (call_step api (p, reason, message) (call_step api (p, reason, message) (AtLookup, r, tr)))
   = (Returned, evictPodIfNotEvicted api p reason message (r, tr))"
  by (simp add: evictPodIfNotEvicted_def split: option.splits prod.splits)

lemma interleave_one_after_the_other:
  "interleave api (p1, reason1, message1) (p2, reason2, message2)
     [False, False, False, True, True, True] (AtLookup, AtLookup, r, tr)
   = (Returned, Returned,
      evictPodIfNotEvicted api p2 reason2 message2 (evictPodIfNotEvicted api p1 reason1 message1 (r, tr)))"
proof -
  obtain r1 tr1 where w1: "evictPodIfNotEvicted api p1 reason1 message1 (r, tr) = (r1, tr1)"
    by (cases "evictPodIfNotEvicted api p1 reason1 message1 (r, tr)")
  have a: "call_step api (p1, reason1, message1)
     (call_step api (p1, reason1, message1) (call_step api (p1, reason1, message1) (AtLookup, r, tr)))
      = (Returned, r1, tr1)"
    by (simp only: call_steps_alone w1)
  have b: "call_step api (p2, reason2, message2)
     (call_step api (p2, reason2, message2) (call_step api (p2, reason2, message2) (AtLookup, r1, tr1)))
      = (Returned, evictPodIfNotEvicted api p2 reason2 message2 (r1, tr1))"
    by (simp only: call_steps_alone)
  show ?thesis
    using a b by (simp add: w1 split: prod.splits) 
qed

text \<open>
  Claim C1, as stated, fails when two calls overlap. Both callers look the UID up before
  either has inserted it; the first then evicts with success and inserts the UID; the
  second, past its lookup, evicts with success as well, while the entry of the UID is in
  the set. The cluster API here accepts every eviction and no entry expires.
\<close>
theorem overlapping_calls_counterexample:
  "(case interleave api_accepts (sample_pod, ''cpu'', ''m'') (sample_pod, ''memory'', ''m'')
           [False, True, False, False] (AtLookup, AtLookup, sample_resmanager, []) of
      (a, b, r, tr) \<Rightarrow>
        a = Returned \<and> b = AtEvict
        \<and> cache_Get (podsEvicted r) ''uid-a'' \<noteq> None
        \<and> length (filter (is_successful_EvictCall_of ''uid-a'') tr) = 1)
   \<and> (case interleave api_accepts (sample_pod, ''cpu'', ''m'') (sample_pod, ''memory'', ''m'')
           [False, True, False, False, True, True] (AtLookup, AtLookup, sample_resmanager, []) of
      (a, b, r, tr) \<Rightarrow>
        a = Returned \<and> b = Returned
        \<and> length (filter (is_successful_EvictCall_of ''uid-a'') tr) = 2)"
  by (simp add: evictPod_cases Let_def cache_Get_def cache_SetDefault_def
        sample_resmanager_def sample_pod_def api_accepts_def)

text \<open>
  Claim C1, amended: \<^verbatim>\<open>evictPodIfNotEvicted\<close> is a barrier for calls that do not overlap.
  (1) When the UID of the pod is in the evicted set, the call changes nothing and does
  nothing but log at verbosity 5: no audit record, no call of the eviction API, no event.
  (2) When the UID is not in the set, the call makes exactly one call of the eviction API,
  and afterwards the UID is in the set if and only if that call succeeded. (3) Over any
  sequence of calls of \<^verbatim>\<open>evictPodIfNotEvicted\<close>, each completed before the next starts,
  and expiries in which the entry of a UID does not expire, at most one successful eviction
  call is made for that UID, and none at all, successful or not, when its entry is there
  from the start.
\<close>
theorem evictPodIfNotEvicted_barrier:
  "(cache_Get (podsEvicted r) (UID p) \<noteq> None \<longrightarrow>
      evictPodIfNotEvicted api p reason message (r, tr) = (r, tr @ [Klog (KV 5)]))
   \<and> (cache_Get (podsEvicted r) (UID p) = None \<longrightarrow>
        (let err = api (tr @ [AuditRecord (Namespace p) (Name p) reason message])
                     (Namespace p) (Name p) (UID p) (evictVersion r);
             w' = evictPodIfNotEvicted api p reason message (r, tr)
         in filter is_EvictCall (snd w')
              = filter is_EvictCall tr @ [EvictCall (Namespace p) (Name p) (UID p) (evictVersion r) err]
            \<and> (cache_Get (podsEvicted (fst w')) (UID p) \<noteq> None \<longleftrightarrow> err = None)))
   \<and> (\<not> list_ex (expires uid) steps \<longrightarrow>
        length (filter (is_successful_EvictCall_of uid) (snd (run_steps api steps (r, tr))))
          \<le> length (filter (is_successful_EvictCall_of uid) tr) + 1
        \<and> (cache_Get (podsEvicted r) uid \<noteq> None \<longrightarrow>
             filter (is_EvictCall_of uid) (snd (run_steps api steps (r, tr)))
               = filter (is_EvictCall_of uid) tr))"
proof (intro conjI impI)
  assume "cache_Get (podsEvicted r) (UID p) \<noteq> None"
  then show "evictPodIfNotEvicted api p reason message (r, tr) = (r, tr @ [Klog (KV 5)])"
    by (auto simp: evictPodIfNotEvicted_def)
next
  assume "cache_Get (podsEvicted r) (UID p) = None"
  then show "let err = api (tr @ [AuditRecord (Namespace p) (Name p) reason message])
                     (Namespace p) (Name p) (UID p) (evictVersion r);
             w' = evictPodIfNotEvicted api p reason message (r, tr)
         in filter is_EvictCall (snd w')
              = filter is_EvictCall tr @ [EvictCall (Namespace p) (Name p) (UID p) (evictVersion r) err]
            \<and> (cache_Get (podsEvicted (fst w')) (UID p) \<noteq> None \<longleftrightarrow> err = None)"
    by (auto simp: evictPodIfNotEvicted_def evictPod_cases Let_def cache_Get_def cache_SetDefault_def)
next
  assume ne: "\<not> list_ex (expires uid) steps"
  have "evict_bound uid (run_steps api steps (r, tr)) = evict_bound uid (r, tr)"
    using ne by (rule evict_bound_run)
  then show "length (filter (is_successful_EvictCall_of uid) (snd (run_steps api steps (r, tr))))
          \<le> length (filter (is_successful_EvictCall_of uid) tr) + 1"
    by (simp add: evict_bound_def split: if_splits)
next
  assume "\<not> list_ex (expires uid) steps" "cache_Get (podsEvicted r) uid \<noteq> None"
  then show "filter (is_EvictCall_of uid) (snd (run_steps api steps (r, tr)))
               = filter (is_EvictCall_of uid) tr"
    using calls_run_present[of uid steps "(r, tr)" api] by simp
qed

theorem evictPodIfNotEvicted_barrier_witness:
  "cache_Get (podsEvicted sample_resmanager) (UID sample_pod) = None
   \<and> cache_Get (podsEvicted (sample_resmanager\<lparr>podsEvicted := [''uid-a'' \<mapsto> ''uid-a'']\<rparr>)) (UID sample_pod) \<noteq> None
   \<and> \<not> list_ex (expires ''uid-a'')
         [EvictIfNotEvicted sample_pod ''r'' ''m'', Expire [''uid-b''], EvictIfNotEvicted sample_pod ''r'' ''m'']
   \<and> evictPodIfNotEvicted api_accepts sample_pod ''r'' ''m''
        (sample_resmanager\<lparr>podsEvicted := [''uid-a'' \<mapsto> ''uid-a'']\<rparr>, [])
       = (sample_resmanager\<lparr>podsEvicted := [''uid-a'' \<mapsto> ''uid-a'']\<rparr>, [Klog (KV 5)])
   \<and> filter is_EvictCall (snd (evictPodIfNotEvicted api_accepts sample_pod ''r'' ''m'' (sample_resmanager, [])))
       = [EvictCall ''default'' ''be-a'' ''uid-a'' ''v1'' None]
   \<and> cache_Get (podsEvicted (fst (evictPodIfNotEvicted api_accepts sample_pod ''r'' ''m'' (sample_resmanager, []))))
        ''uid-a'' \<noteq> None
   \<and> length (filter (is_successful_EvictCall_of ''uid-a'')
        (snd (run_steps api_accepts
           [EvictIfNotEvicted sample_pod ''r'' ''m'', Expire [''uid-b''], EvictIfNotEvicted sample_pod ''r'' ''m'']
           (sample_resmanager, [])))) \<le> 1"
  using evictPodIfNotEvicted_barrier [of sample_resmanager sample_pod api_accepts "''r''" "''m''" "[]" "''uid-a''"
          "[EvictIfNotEvicted sample_pod ''r'' ''m'', Expire [''uid-b''], EvictIfNotEvicted sample_pod ''r'' ''m'']"]
        evictPodIfNotEvicted_barrier [of "sample_resmanager\<lparr>podsEvicted := [''uid-a'' \<mapsto> ''uid-a'']\<rparr>"
          sample_pod api_accepts "''r''" "''m''" "[]" "''uid-a''" "[]"]
  by (simp add: sample_resmanager_def sample_pod_def api_accepts_def cache_Get_def Let_def)

text \<open>
  Claim C2, as stated, fails: when the cluster API refuses the first eviction, the UID is
  not inserted and the second call calls the API again. Here the API refuses everything
  and two calls in a row make two eviction calls.
\<close>
theorem twice_refused_counterexample:
  "length (filter is_EvictCall
     (snd (evictPodIfNotEvicted api_refuses sample_pod ''r'' ''m''
            (evictPodIfNotEvicted api_refuses sample_pod ''r'' ''m'' (sample_resmanager, []))))) = 2"
  by (simp add: evictPodIfNotEvicted_def evictPod_cases Let_def cache_Get_def
        sample_resmanager_def sample_pod_def api_refuses_def)

text \<open>
  Claim C2, amended. Two calls of \<^verbatim>\<open>evictPodIfNotEvicted\<close> for the same pod, one right
  after the other, make no eviction call when the UID is already in the evicted set, one
  when the first call's eviction succeeds, and two when the first call's eviction fails
  (the second call retries). At most one of these calls succeeds.
\<close>
theorem evictPodIfNotEvicted_twice:
  "(let w1 = evictPodIfNotEvicted api p reason message (r, tr);
        w2 = evictPodIfNotEvicted api p reason message w1;
        first_err = api (tr @ [AuditRecord (Namespace p) (Name p) reason message])
                      (Namespace p) (Name p) (UID p) (evictVersion r)
    in length (filter is_EvictCall (snd w2))
         = length (filter is_EvictCall tr)
           + (if cache_Get (podsEvicted r) (UID p) \<noteq> None then 0
              else if first_err = None then 1 else 2)
       \<and> length (filter (is_successful_EvictCall_of (UID p)) (snd w2))
           \<le> length (filter (is_successful_EvictCall_of (UID p)) tr) + 1)"
proof (cases "cache_Get (podsEvicted r) (UID p) = None")
  case False
  then show ?thesis
    by (simp add: evictPodIfNotEvicted_present Let_def)
next
  case absent: True
  show ?thesis
  proof (cases "api (tr @ [AuditRecord (Namespace p) (Name p) reason message])
                      (Namespace p) (Name p) (UID p) (evictVersion r) = None")
    case True
    then have w1: "evictPodIfNotEvicted api p reason message (r, tr)
        = (r\<lparr>podsEvicted := cache_SetDefault (podsEvicted r) (UID p) (UID p)\<rparr>,
           tr @ [AuditRecord (Namespace p) (Name p) reason message,
                 EvictCall (Namespace p) (Name p) (UID p) (evictVersion r) None,
                 Eventf (UID p) EventTypeWarning evictPodSuccess (podEvictMessage p reason message),
                 RecordPodEviction (Namespace p) (Name p) reason, Klog KInfo])"
      using absent by (simp add: evictPodIfNotEvicted_absent evictPod_cases Let_def)
    have "cache_Get (podsEvicted (r\<lparr>podsEvicted := cache_SetDefault (podsEvicted r) (UID p) (UID p)\<rparr>)) (UID p) \<noteq> None"
      by (simp add: cache_Get_def cache_SetDefault_def)
    then show ?thesis
      using True absent by (simp add: w1 evictPodIfNotEvicted_present Let_def)
  next
    case False
    then obtain e where e: "api (tr @ [AuditRecord (Namespace p) (Name p) reason message])
                      (Namespace p) (Name p) (UID p) (evictVersion r) = Some e"
      by auto
    have w1: "evictPodIfNotEvicted api p reason message (r, tr)
        = (r, tr @ [AuditRecord (Namespace p) (Name p) reason message,
                 EvictCall (Namespace p) (Name p) (UID p) (evictVersion r) (Some e),
                 Eventf (UID p) EventTypeWarning evictPodFail (podEvictMessage p reason message),
                 Klog KError])"
      using absent e by (simp add: evictPodIfNotEvicted_absent evictPod_cases Let_def)
    show ?thesis
      using absent e
      by (simp add: w1 evictPodIfNotEvicted_absent evictPod_cases Let_def)
  qed
qed

theorem evictPodIfNotEvicted_twice_witness:
  "cache_Get (podsEvicted sample_resmanager) (UID sample_pod) = None
   \<and> api_accepts [AuditRecord ''default'' ''be-a'' ''r'' ''m''] ''default'' ''be-a'' ''uid-a'' ''v1'' = None
   \<and> length (filter is_EvictCall
        (snd (evictPodIfNotEvicted api_accepts sample_pod ''r'' ''m''
               (evictPodIfNotEvicted api_accepts sample_pod ''r'' ''m'' (sample_resmanager, []))))) = 1"
  using evictPodIfNotEvicted_twice [of api_accepts sample_pod "''r''" "''m''" sample_resmanager "[]"]
  by (simp add: sample_resmanager_def sample_pod_def api_accepts_def cache_Get_def Let_def)

subsection \<open>The container killer\<close>

lemma killContainers_loop_abort:
  "aborts_pod rt status c \<Longrightarrow>
     killContainers_loop rt status message (cs1 @ c # cs2) tr
       = killContainers_loop rt status message (cs1 @ [c]) tr"
proof (induction cs1 arbitrary: tr)
  case Nil
  then show ?case
    by (auto simp: aborts_pod_def split: sum.splits option.splits prod.splits)
next
  case (Cons a cs1)
  then show ?case
    by (simp split: sum.splits option.splits prod.splits)
qed

lemma killContainers_loop_abort_head:
  "aborts_pod rt status c \<Longrightarrow>
     killContainers_loop rt status message (c # cs) tr
       = (case FindContainerIdAndStatusByName rt status c of
            Inl err \<Rightarrow> tr @ [Klog KError] | Inr x \<Rightarrow> tr)"
  by (auto simp: aborts_pod_def split: sum.splits option.splits prod.splits)

lemma killContainers_head:
  "Containers p = c # cs \<Longrightarrow>
     killContainers rt p message tr = killContainers_loop rt (Status p) message (c # cs) tr"
  "killContainers rt (p\<lparr>Containers := cs\<rparr>) message tr'
     = killContainers_loop rt (Status p) message cs tr'"
  by (simp_all add: killContainers_def)

text \<open>
  Claim C7. \<^verbatim>\<open>killContainers\<close> treats its failures differently; the statements are
  about \<^verbatim>\<open>killContainers\<close> on any pod, the rest of the loop being \<^verbatim>\<open>killContainers\<close>
  on the pod with the containers still to visit. (0) On a pod without containers nothing
  is done. (1) A container whose status is not found, or is found nil or without
  \<^verbatim>\<open>Running\<close> state, ends the loop: the containers after it are not visited, wherever
  it stands in the pod, and at that container nothing is done but logging the lookup
  error, if there is one. (2) A running container whose runtime type is unknown is only
  skipped: an error is logged and the loop goes on with the next container. (3) A running
  container with a handler is stopped with grace period 0; when the stop fails the error is
  logged, and in both cases the loop goes on with the next container. A running container
  with an empty container id is skipped with a warning. (4) For a pod none of whose
  containers is found running, no container is stopped.
\<close>
theorem killContainers_asymmetric:
  "(Containers p = [] \<longrightarrow> killContainers rt p message tr = tr)
   \<and> (Containers p = cs1 @ c # cs2 \<and> aborts_pod rt (Status p) c \<longrightarrow>
        killContainers rt p message tr = killContainers rt (p\<lparr>Containers := cs1 @ [c]\<rparr>) message tr)
   \<and> (Containers p = c # cs2 \<and> aborts_pod rt (Status p) c \<longrightarrow>
        killContainers rt p message tr
          = (case FindContainerIdAndStatusByName rt (Status p) c of
               Inl err \<Rightarrow> tr @ [Klog KError] | Inr x \<Rightarrow> tr))
   \<and> (Containers p = c # cs2
        \<and> FindContainerIdAndStatusByName rt (Status p) c = Inr (containerID, Some st) \<and> Running st
        \<and> containerID \<noteq> [] \<and> handler_of rt st = None \<longrightarrow>
        killContainers rt p message tr
          = killContainers rt (p\<lparr>Containers := cs2\<rparr>) message (tr @ [Klog KError]))
   \<and> (Containers p = c # cs2
        \<and> FindContainerIdAndStatusByName rt (Status p) c = Inr (containerID, Some st) \<and> Running st
        \<and> containerID \<noteq> [] \<and> handler_of rt st = Some h \<longrightarrow>
        killContainers rt p message tr
          = killContainers rt (p\<lparr>Containers := cs2\<rparr>) message
              (tr @ StopContainerCall h containerID 0 (StopContainer rt tr h containerID 0)
                  # (if StopContainer rt tr h containerID 0 = None then [] else [Klog KError])))
   \<and> (Containers p = c # cs2
        \<and> FindContainerIdAndStatusByName rt (Status p) c = Inr ([], Some st) \<and> Running st \<longrightarrow>
        killContainers rt p message tr
          = killContainers rt (p\<lparr>Containers := cs2\<rparr>) message (tr @ [Klog KWarning]))
   \<and> (list_all (aborts_pod rt (Status p)) (Containers p) \<longrightarrow>
        filter is_StopContainerCall (killContainers rt p message tr) = filter is_StopContainerCall tr)"
proof (intro conjI impI)
  assume "Containers p = []"
  then show "killContainers rt p message tr = tr" by (simp add: killContainers_def)
next
  assume h: "Containers p = cs1 @ c # cs2 \<and> aborts_pod rt (Status p) c"
  then have "killContainers_loop rt (Status p) message (cs1 @ c # cs2) tr
      = killContainers_loop rt (Status p) message (cs1 @ [c]) tr"
    by (intro killContainers_loop_abort) simp
  with h show "killContainers rt p message tr
      = killContainers rt (p\<lparr>Containers := cs1 @ [c]\<rparr>) message tr"
    by (simp add: killContainers_def)
next
  assume h: "Containers p = c # cs2 \<and> aborts_pod rt (Status p) c"
  then have "killContainers_loop rt (Status p) message (c # cs2) tr
          = (case FindContainerIdAndStatusByName rt (Status p) c of
               Inl err \<Rightarrow> tr @ [Klog KError] | Inr x \<Rightarrow> tr)"
    by (intro killContainers_loop_abort_head) simp
  with h show "killContainers rt p message tr
          = (case FindContainerIdAndStatusByName rt (Status p) c of
               Inl err \<Rightarrow> tr @ [Klog KError] | Inr x \<Rightarrow> tr)"
    by (simp only: killContainers_def)
next
  assume "Containers p = c # cs2
        \<and> FindContainerIdAndStatusByName rt (Status p) c = Inr (containerID, Some st) \<and> Running st
        \<and> containerID \<noteq> [] \<and> handler_of rt st = None"
  then show "killContainers rt p message tr
          = killContainers rt (p\<lparr>Containers := cs2\<rparr>) message (tr @ [Klog KError])"
    by (auto simp: killContainers_def handler_of_def split: sum.splits option.splits)
next
  assume "Containers p = c # cs2
        \<and> FindContainerIdAndStatusByName rt (Status p) c = Inr (containerID, Some st) \<and> Running st
        \<and> containerID \<noteq> [] \<and> handler_of rt st = Some h"
  then show "killContainers rt p message tr
          = killContainers rt (p\<lparr>Containers := cs2\<rparr>) message
              (tr @ StopContainerCall h containerID 0 (StopContainer rt tr h containerID 0)
                  # (if StopContainer rt tr h containerID 0 = None then [] else [Klog KError]))"
    by (auto simp: killContainers_def handler_of_def split: sum.splits option.splits)
next
  assume "Containers p = c # cs2
        \<and> FindContainerIdAndStatusByName rt (Status p) c = Inr ([], Some st) \<and> Running st"
  then show "killContainers rt p message tr
          = killContainers rt (p\<lparr>Containers := cs2\<rparr>) message (tr @ [Klog KWarning])"
    by (simp add: killContainers_def)
next
  assume a: "list_all (aborts_pod rt (Status p)) (Containers p)"
  show "filter is_StopContainerCall (killContainers rt p message tr) = filter is_StopContainerCall tr"
  proof (cases "Containers p")
    case Nil
    then show ?thesis by (simp add: killContainers_def)
  next
    case (Cons c cs)
    with a have "aborts_pod rt (Status p) c" by simp
    from killContainers_loop_abort_head[OF this] Cons show ?thesis
      by (simp add: killContainers_def split: sum.splits)
  qed
qed

lemma sample_find:
  "FindContainerIdAndStatusByName sample_runtime sample_status ''gone'' = Inl ''unable to find ID for container''"
  "FindContainerIdAndStatusByName sample_runtime sample_status ''odd''
     = Inr (''c3'', Some \<lparr>StatusName = ''odd'', ContainerID = ''other://c3'', Running = True\<rparr>)"
  "FindContainerIdAndStatusByName sample_runtime sample_status ''side''
     = Inr (''c2'', Some \<lparr>StatusName = ''side'', ContainerID = ''containerd://c2'', Running = True\<rparr>)"
  "FindContainerIdAndStatusByName sample_runtime sample_status ''idle''
     = Inr (''c4'', Some \<lparr>StatusName = ''idle'', ContainerID = ''containerd://c4'', Running = False\<rparr>)"
  by (simp_all add: sample_runtime_def sample_status_def)

theorem killContainers_asymmetric_witness:
  "aborts_pod sample_runtime sample_status ''gone''
   \<and> killContainers sample_runtime (pod_with ([''main''] @ ''gone'' # [''side''])) ''m'' []
       = killContainers sample_runtime
           (pod_with ([''main''] @ ''gone'' # [''side''])\<lparr>Containers := [''main''] @ [''gone'']\<rparr>) ''m'' []
   \<and> killContainers sample_runtime (pod_with [''gone'', ''side'']) ''m'' [] = [Klog KError]
   \<and> handler_of sample_runtime \<lparr>StatusName = ''odd'', ContainerID = ''other://c3'', Running = True\<rparr> = None
   \<and> killContainers sample_runtime (pod_with [''odd'', ''main'']) ''m'' []
       = killContainers sample_runtime (pod_with [''odd'', ''main'']\<lparr>Containers := [''main'']\<rparr>) ''m''
           ([] @ [Klog KError])
   \<and> handler_of sample_runtime \<lparr>StatusName = ''side'', ContainerID = ''containerd://c2'', Running = True\<rparr>
       = Some ''containerd''
   \<and> StopContainer sample_runtime [] ''containerd'' ''c2'' 0 = Some ''stop failed''
   \<and> killContainers sample_runtime (pod_with [''side'', ''main'']) ''m'' []
       = killContainers sample_runtime (pod_with [''side'', ''main'']\<lparr>Containers := [''main'']\<rparr>) ''m''
           ([] @ StopContainerCall ''containerd'' ''c2'' 0 (StopContainer sample_runtime [] ''containerd'' ''c2'' 0)
               # (if StopContainer sample_runtime [] ''containerd'' ''c2'' 0 = None then [] else [Klog KError]))
   \<and> list_all (aborts_pod sample_runtime (Status idle_pod)) (Containers idle_pod)
   \<and> filter is_StopContainerCall (killContainers sample_runtime idle_pod ''m'' [])
       = filter is_StopContainerCall []"
proof -
  let ?odd = "\<lparr>StatusName = ''odd'', ContainerID = ''other://c3'', Running = True\<rparr>"
  let ?side = "\<lparr>StatusName = ''side'', ContainerID = ''containerd://c2'', Running = True\<rparr>"
  have st: "Status (pod_with cs) = sample_status" and cs: "Containers (pod_with cs) = cs" for cs
    by (simp_all add: pod_with_def)
  have gone: "aborts_pod sample_runtime sample_status ''gone''"
    by (simp add: aborts_pod_def sample_find)
  have gone_mid: "Containers (pod_with ([''main''] @ ''gone'' # [''side''])) = [''main''] @ ''gone'' # [''side'']
      \<and> aborts_pod sample_runtime (Status (pod_with ([''main''] @ ''gone'' # [''side'']))) ''gone''"
    using gone by (simp add: st cs)
  have gone_head: "Containers (pod_with [''gone'', ''side'']) = ''gone'' # [''side'']
      \<and> aborts_pod sample_runtime (Status (pod_with [''gone'', ''side''])) ''gone''"
    using gone by (simp add: st cs)
  have odd0: "handler_of sample_runtime ?odd = None"
    by (simp add: handler_of_def sample_runtime_def)
  have odd: "Containers (pod_with [''odd'', ''main'']) = ''odd'' # [''main'']
      \<and> FindContainerIdAndStatusByName sample_runtime (Status (pod_with [''odd'', ''main''])) ''odd''
           = Inr (''c3'', Some ?odd)
      \<and> Running ?odd \<and> ''c3'' \<noteq> [] \<and> handler_of sample_runtime ?odd = None"
    using odd0 by (simp add: st cs sample_find)
  have side0: "handler_of sample_runtime ?side = Some ''containerd''"
    by (simp add: handler_of_def sample_runtime_def)
  have side: "Containers (pod_with [''side'', ''main'']) = ''side'' # [''main'']
      \<and> FindContainerIdAndStatusByName sample_runtime (Status (pod_with [''side'', ''main''])) ''side''
           = Inr (''c2'', Some ?side)
      \<and> Running ?side \<and> ''c2'' \<noteq> [] \<and> handler_of sample_runtime ?side = Some ''containerd''"
    using side0 by (simp add: st cs sample_find)
  have stop: "StopContainer sample_runtime [] ''containerd'' ''c2'' 0 = Some ''stop failed''"
    by (simp add: sample_runtime_def)
  have idle: "list_all (aborts_pod sample_runtime (Status idle_pod)) (Containers idle_pod)"
    by (simp add: idle_pod_def aborts_pod_def sample_runtime_def)
  from killContainers_asymmetric [of "pod_with ([''main''] @ ''gone'' # [''side''])" sample_runtime "''m''" "[]"
         "[''main'']" "''gone''" "[''side'']"] gone_mid
  have c1: "killContainers sample_runtime (pod_with ([''main''] @ ''gone'' # [''side''])) ''m'' []
       = killContainers sample_runtime
           (pod_with ([''main''] @ ''gone'' # [''side''])\<lparr>Containers := [''main''] @ [''gone'']\<rparr>) ''m'' []"
    by blast
  from killContainers_asymmetric [of "pod_with [''gone'', ''side'']" sample_runtime "''m''" "[]"
         "[]" "''gone''" "[''side'']"] gone_head
  have "killContainers sample_runtime (pod_with [''gone'', ''side'']) ''m'' []
      = (case FindContainerIdAndStatusByName sample_runtime (Status (pod_with [''gone'', ''side''])) ''gone'' of
           Inl err \<Rightarrow> [] @ [Klog KError] | Inr x \<Rightarrow> [])"
    by blast
  then have c1': "killContainers sample_runtime (pod_with [''gone'', ''side'']) ''m'' [] = [Klog KError]"
    by (simp add: st sample_find)
  from killContainers_asymmetric [of "pod_with [''odd'', ''main'']" sample_runtime "''m''" "[]"
         "[]" "''odd''" "[''main'']" "''c3''" ?odd] odd
  have c2: "killContainers sample_runtime (pod_with [''odd'', ''main'']) ''m'' []
       = killContainers sample_runtime (pod_with [''odd'', ''main'']\<lparr>Containers := [''main'']\<rparr>) ''m''
           ([] @ [Klog KError])"
    by blast
  from killContainers_asymmetric [of "pod_with [''side'', ''main'']" sample_runtime "''m''" "[]"
         "[]" "''side''" "[''main'']" "''c2''" ?side "''containerd''"] side
  have c3: "killContainers sample_runtime (pod_with [''side'', ''main'']) ''m'' []
       = killContainers sample_runtime (pod_with [''side'', ''main'']\<lparr>Containers := [''main'']\<rparr>) ''m''
           ([] @ StopContainerCall ''containerd'' ''c2'' 0 (StopContainer sample_runtime [] ''containerd'' ''c2'' 0)
               # (if StopContainer sample_runtime [] ''containerd'' ''c2'' 0 = None then [] else [Klog KError]))"
    by blast
  from killContainers_asymmetric [of idle_pod sample_runtime "''m''" "[]"] idle
  have c4: "filter is_StopContainerCall (killContainers sample_runtime idle_pod ''m'' [])
       = filter is_StopContainerCall []"
    by blast
  from gone c1 c1' odd0 c2 side0 stop c3 idle c4 show ?thesis by blast
qed

subsection \<open>Starting the manager\<close>

text \<open>
  Claim C8. (1) Whenever \<^verbatim>\<open>collectResUsedIntervalSeconds\<close> is below 1, 0 included,
  \<^verbatim>\<open>Run\<close> returns nil at once: it logs one line and does nothing else. (2) When the
  interval is at least 1 and waiting for the informer ends unsynced (the stop channel fired
  first), \<^verbatim>\<open>Run\<close> returns the error of the sync time-out, having started the sweeper of
  the evicted set and the QoS grey-control plugins only. (3) In both cases no reconciler
  has been started.
\<close>
theorem Run_startup:
  "(collectResUsedIntervalSeconds r <s 1 \<longrightarrow> Run r renv = (ReturnNil, [Klog KInfo]))
   \<and> (\<not> collectResUsedIntervalSeconds r <s 1 \<and> \<not> WaitForCacheSync renv \<longrightarrow>
        Run r renv = (ReturnError ''time out waiting for states informer caches to sync'',
                      [Klog KInfo, PodsEvictedRun, GoRunQOSGreyCtrlPlugins]))
   \<and> (collectResUsedIntervalSeconds r <s 1 \<or> \<not> WaitForCacheSync renv \<longrightarrow>
        \<not> list_ex is_reconciler_start (snd (Run r renv)))"
  by (simp add: Run_def Let_def)

theorem Run_startup_witness:
  "collectResUsedIntervalSeconds (sample_resmanager\<lparr>collectResUsedIntervalSeconds := 0\<rparr>) <s 1
   \<and> Run (sample_resmanager\<lparr>collectResUsedIntervalSeconds := 0\<rparr>)
        \<lparr>WaitForCacheSync = True, StartPluginsError = None\<rparr> = (ReturnNil, [Klog KInfo])
   \<and> \<not> collectResUsedIntervalSeconds sample_resmanager <s 1
   \<and> \<not> WaitForCacheSync \<lparr>WaitForCacheSync = False, StartPluginsError = None\<rparr>
   \<and> Run sample_resmanager \<lparr>WaitForCacheSync = False, StartPluginsError = None\<rparr>
       = (ReturnError ''time out waiting for states informer caches to sync'',
          [Klog KInfo, PodsEvictedRun, GoRunQOSGreyCtrlPlugins])
   \<and> \<not> list_ex is_reconciler_start
          (snd (Run sample_resmanager \<lparr>WaitForCacheSync = False, StartPluginsError = None\<rparr>))
   \<and> list_ex is_reconciler_start
          (snd (Run sample_resmanager \<lparr>WaitForCacheSync = True, StartPluginsError = None\<rparr>))"
  using Run_startup [of "sample_resmanager\<lparr>collectResUsedIntervalSeconds := 0\<rparr>"
                        "\<lparr>WaitForCacheSync = True, StartPluginsError = None\<rparr>"]
        Run_startup [of sample_resmanager "\<lparr>WaitForCacheSync = False, StartPluginsError = None\<rparr>"]
  by (simp add: sample_resmanager_def word_sless_alt Run_def Let_def)

subsection \<open>The tick of the memory evictor\<close>

lemma isFeatureDisabled_no_error:
  "isFeatureDisabled nodeSLO BEMemoryEvict = (disabled, None) \<Longrightarrow>
     \<exists>slo strategy enable. nodeSLO = Some slo
        \<and> ResourceUsedThresholdWithBE (Spec slo) = Some strategy
        \<and> Enable strategy = Some enable \<and> disabled = (\<not> enable)"
  by (auto simp: isFeatureDisabled_def split: option.splits if_splits)

lemma isFeatureDisabled_enabled:
  "GetNodeSLO env = Some slo \<Longrightarrow> ResourceUsedThresholdWithBE (Spec slo) = Some cfg \<Longrightarrow>
     Enable cfg = Some b \<Longrightarrow> isFeatureDisabled (GetNodeSLO env) BEMemoryEvict = (\<not> b, None)"
  by (simp add: isFeatureDisabled_def)

lemma memoryEvict_body_proceeds:
  assumes "tick_guards env m cfg T cap used"
  shows "memoryEvict_body env m tr =
     (if nodeMemoryUsage used cap <s T then (m, tr @ [Klog (KV 5)])
      else killAndEvictBEPods env m (collectAllPodMetricsLast env)
             (memoryNeedRelease cap (nodeMemoryUsage used cap) (lowerPercent cfg T))
             (tr @ [Klog KInfo]))"
proof -
  from assms obtain slo node where
    slo: "GetNodeSLO env = Some slo" "ResourceUsedThresholdWithBE (Spec slo) = Some cfg"
    and node: "GetNode env = Some node" "MemoryCapacity node = cap"
    by (auto simp: tick_guards_def split: option.splits)
  from assms have en: "Enable cfg = Some True" by (simp add: tick_guards_def)
  have fd: "isFeatureDisabled (Some slo) BEMemoryEvict = (False, None)"
    using isFeatureDisabled_enabled[OF slo en] by (simp add: slo)
  from assms have rest:
    "\<not> now0 env < time_Add (lastEvictTime m)
        (MemoryEvictCoolTimeSeconds (config (resManager m)) * time_Second)"
    "MemoryEvictThresholdPercent cfg = Some T" "\<not> T <s 0" "lowerPercent cfg T <s T"
    "0 <s cap" "BuildQueryMeta env = None" "collectorNodeMetricLast env = Inr used"
    by (simp_all add: tick_guards_def)
  have c1: "\<not> T \<le>s lowerPercent cfg T" using rest(4) by (simp add: signed.not_le)
  have c2: "\<not> cap \<le>s 0" using rest(5) by (simp add: signed.not_le)
  show ?thesis
    unfolding memoryEvict_body_def
    by (simp add: fd slo node rest c1 c2 Let_def)
qed

lemma memoryEvict_body_skips:
  "memoryEvict_body env m tr = (m, tr @ [Klog (KV 5)])
   \<or> memoryEvict_body env m tr = (m, tr @ [Klog (KV 4)])
   \<or> memoryEvict_body env m tr = (m, tr @ [Klog KError])
   \<or> memoryEvict_body env m tr = (m, tr @ [Klog KWarning])
   \<or> (\<exists>cfg T cap used. tick_guards env m cfg T cap used \<and> \<not> nodeMemoryUsage used cap <s T)"
proof (cases "now0 env < time_Add (lastEvictTime m)
        (MemoryEvictCoolTimeSeconds (config (resManager m)) * time_Second)")
  case True
  then show ?thesis by (simp add: memoryEvict_body_def)
next
  case cool: False
  obtain disabled err where fd: "isFeatureDisabled (GetNodeSLO env) BEMemoryEvict = (disabled, err)"
    by (cases "isFeatureDisabled (GetNodeSLO env) BEMemoryEvict") auto
  show ?thesis
  proof (cases err)
    case (Some e)
    with cool fd show ?thesis by (simp add: memoryEvict_body_def split: bool.splits)
  next
    case None
    from isFeatureDisabled_no_error[OF fd[unfolded None]] obtain slo cfg enable where
      slo: "GetNodeSLO env = Some slo" "ResourceUsedThresholdWithBE (Spec slo) = Some cfg"
        "Enable cfg = Some enable" "disabled = (\<not> enable)" by blast
    show ?thesis
    proof (cases enable)
      case False
      with cool fd None slo show ?thesis by (simp add: memoryEvict_body_def)
    next
      case True
      have fd': "isFeatureDisabled (GetNodeSLO env) BEMemoryEvict = (False, None)"
        using fd None slo True by simp
      show ?thesis
        using cool slo True
        unfolding memoryEvict_body_def fd'
        by (auto simp: Let_def tick_guards_def signed.not_le split: option.splits sum.splits)
    qed
  qed
qed

lemma usage_80: "nodeMemoryUsage 85899345920 107374182400 = 80"
  by (simp add: nodeMemoryUsage_def go_div64_def int64_of_float_def signed_divide_int_def)



lemma killAndEvictBEPods_lastEvictTime:
  "lastEvictTime (fst (killAndEvictBEPods env m podMetrics need tr)) = now1 env"
  by (simp add: killAndEvictBEPods_def Let_def split: prod.splits)

lemma memoryEvict_lastEvictTime:
  "lastEvictTime (fst (memoryEvict env (m, tr))) = lastEvictTime m
   \<or> lastEvictTime (fst (memoryEvict env (m, tr))) = now1 env"
proof -
  from memoryEvict_body_skips[of env m "tr @ [Klog (KV 5)]"]
  consider (skip) "fst (memoryEvict_body env m (tr @ [Klog (KV 5)])) = m"
    | (act) cfg T cap used where "tick_guards env m cfg T cap used" "\<not> nodeMemoryUsage used cap <s T"
    by auto
  then show ?thesis
  proof cases
    case skip
    then show ?thesis by (cases "memoryEvict_body env m (tr @ [Klog (KV 5)])") (simp add: memoryEvict_def)
  next
    case act
    have "lastEvictTime (fst (memoryEvict_body env m (tr @ [Klog (KV 5)]))) = now1 env"
      using act(2) by (simp add: memoryEvict_body_proceeds[OF act(1)] killAndEvictBEPods_lastEvictTime)
    then show ?thesis
      by (cases "memoryEvict_body env m (tr @ [Klog (KV 5)])") (simp add: memoryEvict_def)
  qed
qed

lemma memoryEvict_cooldown:
  "now0 env < time_Add (lastEvictTime m)
        (MemoryEvictCoolTimeSeconds (config (resManager m)) * time_Second) \<Longrightarrow>
     memoryEvict env (m, tr) = (m, tr @ [Klog (KV 5), Klog (KV 5), Klog (KV 5)])"
  by (simp add: memoryEvict_def memoryEvict_body_def)

lemma run_ticks_sorted:
  "lastEvictTime (fst w) \<le> t \<Longrightarrow> clock_monotone t envs \<Longrightarrow>
     sorted (lastEvictTime (fst w) # map (\<lambda>w. lastEvictTime (fst w)) (run_ticks envs w))"
proof (induction envs arbitrary: w t)
  case Nil
  then show ?case by simp
next
  case (Cons env envs)
  obtain m tr where w: "w = (m, tr)" by (cases w)
  let ?w' = "memoryEvict env w"
  from memoryEvict_lastEvictTime[of env m tr] w
  have step: "lastEvictTime (fst ?w') = lastEvictTime (fst w) \<or> lastEvictTime (fst ?w') = now1 env"
    by simp
  from Cons.prems have t: "lastEvictTime (fst w) \<le> now1 env" "clock_monotone (now1 env) envs"
    by simp_all
  from step t have le: "lastEvictTime (fst w) \<le> lastEvictTime (fst ?w')"
    and le': "lastEvictTime (fst ?w') \<le> now1 env" by auto
  from Cons.IH[OF le' t(2)] le show ?case by (auto intro: order_trans)
qed



lemma sint_minus_buffer:
  fixes T :: int64
  assumes "\<not> T <s 0"
  shows "sint (T - memoryReleaseBufferPercent) = sint T - 2"
proof -
  have nonneg: "0 \<le> sint T" using assms by (simp add: word_sless_alt)
  have lt: "sint T < 2 ^ 63" using sint_lt[of T] by simp
  have "sint (T - 2) = signed_take_bit 63 (sint T - sint (2::int64))"
    by (simp add: sint_word_ariths)
  also have "\<dots> = sint T - 2"
    using nonneg lt by (simp add: signed_take_bit_int_eq_self)
  finally show ?thesis by (simp add: memoryReleaseBufferPercent_def)
qed

lemma memoryEvict_proceeds:
  "tick_guards env m cfg T cap used \<Longrightarrow> \<not> nodeMemoryUsage used cap <s T \<Longrightarrow>
     memoryEvict env (m, tr) =
       (case killAndEvictBEPods env m (collectAllPodMetricsLast env)
               (memoryNeedRelease cap (nodeMemoryUsage used cap) (lowerPercent cfg T))
               (tr @ [Klog (KV 5), Klog KInfo]) of
          (m', tr') \<Rightarrow> (m', tr' @ [Klog (KV 5)]))"
  by (simp add: memoryEvict_def memoryEvict_body_proceeds)

text \<open>
  Claim C9. (1) When \<^verbatim>\<open>MemoryEvictLowerPercent\<close> is unset and the threshold \<open>T\<close>
  has passed the test \<^verbatim>\<open>T < 0\<close>, the lower percent is \<open>T - 2\<close> as an integer (the
  \<^verbatim>\<open>int64\<close> subtraction does not wrap), and so it is below \<open>T\<close>. (2) For the
  threshold 70 it is 68. (3) This value is the lower bound that the tick uses in the budget
  it passes on. (4) The tick needs the lower percent below the threshold to proceed: with
  the guards before this one passed and the lower percent not below the threshold, the
  tick logs a warning and returns.
\<close>
theorem lowerPercent_unset:
  "(MemoryEvictLowerPercent cfg = None \<and> \<not> T <s 0 \<longrightarrow>
      sint (lowerPercent cfg T) = sint T - 2 \<and> lowerPercent cfg T <s T)
   \<and> (MemoryEvictLowerPercent cfg = None \<longrightarrow> lowerPercent cfg 70 = 68)
   \<and> (MemoryEvictLowerPercent cfg = None \<and> tick_guards env m cfg T cap used
        \<and> \<not> nodeMemoryUsage used cap <s T \<longrightarrow>
        memoryEvict env (m, tr) =
          (case killAndEvictBEPods env m (collectAllPodMetricsLast env)
                  (memoryNeedRelease cap (nodeMemoryUsage used cap) (T - 2))
                  (tr @ [Klog (KV 5), Klog KInfo]) of
             (m', tr') \<Rightarrow> (m', tr' @ [Klog (KV 5)])))
   \<and> (\<not> now0 env < time_Add (lastEvictTime m)
        (MemoryEvictCoolTimeSeconds (config (resManager m)) * time_Second)
        \<and> GetNodeSLO env = Some slo \<and> ResourceUsedThresholdWithBE (Spec slo) = Some cfg
        \<and> Enable cfg = Some True \<and> MemoryEvictThresholdPercent cfg = Some T \<and> \<not> T <s 0
        \<and> T \<le>s lowerPercent cfg T \<longrightarrow>
        memoryEvict env (m, tr) = (m, tr @ [Klog (KV 5), Klog KWarning, Klog (KV 5)]))"
proof (intro conjI impI)
  assume a: "MemoryEvictLowerPercent cfg = None \<and> \<not> T <s 0"
  then have s: "sint (lowerPercent cfg T) = sint T - 2"
    using sint_minus_buffer[of T] by (simp add: lowerPercent_def)
  then show "sint (lowerPercent cfg T) = sint T - 2" .
  from s show "lowerPercent cfg T <s T" by (simp add: word_sless_alt)
next
  assume "MemoryEvictLowerPercent cfg = None"
  then show "lowerPercent cfg 70 = 68"
    by (simp add: lowerPercent_def memoryReleaseBufferPercent_def)
next
  assume a: "MemoryEvictLowerPercent cfg = None \<and> tick_guards env m cfg T cap used
        \<and> \<not> nodeMemoryUsage used cap <s T"
  then have "lowerPercent cfg T = T - 2"
    by (simp add: lowerPercent_def memoryReleaseBufferPercent_def)
  with a memoryEvict_proceeds[of env m cfg T cap used tr]
  show "memoryEvict env (m, tr) =
          (case killAndEvictBEPods env m (collectAllPodMetricsLast env)
                  (memoryNeedRelease cap (nodeMemoryUsage used cap) (T - 2))
                  (tr @ [Klog (KV 5), Klog KInfo]) of
             (m', tr') \<Rightarrow> (m', tr' @ [Klog (KV 5)]))"
    by simp
next
  assume a: "\<not> now0 env < time_Add (lastEvictTime m)
        (MemoryEvictCoolTimeSeconds (config (resManager m)) * time_Second)
        \<and> GetNodeSLO env = Some slo \<and> ResourceUsedThresholdWithBE (Spec slo) = Some cfg
        \<and> Enable cfg = Some True \<and> MemoryEvictThresholdPercent cfg = Some T \<and> \<not> T <s 0
        \<and> T \<le>s lowerPercent cfg T"
  then have fd: "isFeatureDisabled (Some slo) BEMemoryEvict = (False, None)"
    by (simp add: isFeatureDisabled_def)
  from a show "memoryEvict env (m, tr) = (m, tr @ [Klog (KV 5), Klog KWarning, Klog (KV 5)])"
    by (simp add: memoryEvict_def memoryEvict_body_def fd Let_def)
qed

theorem lowerPercent_unset_witness:
  "MemoryEvictLowerPercent unset_strategy = None \<and> \<not> (70 :: int64) <s 0
   \<and> sint (lowerPercent unset_strategy 70) = sint (70 :: int64) - 2
   \<and> lowerPercent unset_strategy 70 = 68
   \<and> tick_guards (sample_env\<lparr>GetNodeSLO := Some (slo_with unset_strategy)\<rparr>) sample_evictor
        unset_strategy 70 107374182400 85899345920
   \<and> \<not> nodeMemoryUsage 85899345920 107374182400 <s 70
   \<and> memoryEvict (sample_env\<lparr>GetNodeSLO := Some (slo_with unset_strategy)\<rparr>) (sample_evictor, []) =
       (case killAndEvictBEPods (sample_env\<lparr>GetNodeSLO := Some (slo_with unset_strategy)\<rparr>) sample_evictor
               (collectAllPodMetricsLast (sample_env\<lparr>GetNodeSLO := Some (slo_with unset_strategy)\<rparr>))
               (memoryNeedRelease 107374182400 (nodeMemoryUsage 85899345920 107374182400) (70 - 2))
               ([] @ [Klog (KV 5), Klog KInfo]) of
          (m', tr') \<Rightarrow> (m', tr' @ [Klog (KV 5)]))
   \<and> (50 :: int64) \<le>s lowerPercent invalid_strategy 50
   \<and> memoryEvict (sample_env\<lparr>GetNodeSLO := Some (slo_with invalid_strategy)\<rparr>) (sample_evictor, [])
       = (sample_evictor, [] @ [Klog (KV 5), Klog KWarning, Klog (KV 5)])"
proof -
  let ?env = "sample_env\<lparr>GetNodeSLO := Some (slo_with unset_strategy)\<rparr>"
  let ?env' = "sample_env\<lparr>GetNodeSLO := Some (slo_with invalid_strategy)\<rparr>"
  have h1: "MemoryEvictLowerPercent unset_strategy = None \<and> \<not> (70 :: int64) <s 0"
    by (simp add: unset_strategy_def word_sless_alt)
  have h2: "tick_guards ?env sample_evictor unset_strategy 70 107374182400 85899345920"
    by (simp add: tick_guards_def sample_env_def sample_evictor_def NewMemoryEvictor_def
          sample_resmanager_def sample_config_def time_Add_def time_Second_def slo_with_def unset_strategy_def
          sample_strategy_def lowerPercent_def memoryReleaseBufferPercent_def word_sless_alt)
  have h3: "\<not> nodeMemoryUsage 85899345920 107374182400 <s 70"
    by (simp add: usage_80)
  have h4: "\<not> now0 ?env' < time_Add (lastEvictTime sample_evictor)
        (MemoryEvictCoolTimeSeconds (config (resManager sample_evictor)) * time_Second)
      \<and> GetNodeSLO ?env' = Some (slo_with invalid_strategy)
      \<and> ResourceUsedThresholdWithBE (Spec (slo_with invalid_strategy)) = Some invalid_strategy
      \<and> Enable invalid_strategy = Some True
      \<and> MemoryEvictThresholdPercent invalid_strategy = Some 50 \<and> \<not> (50 :: int64) <s 0
      \<and> (50 :: int64) \<le>s lowerPercent invalid_strategy 50"
    by (simp add: sample_env_def sample_evictor_def NewMemoryEvictor_def
          sample_resmanager_def sample_config_def time_Add_def time_Second_def slo_with_def invalid_strategy_def
          sample_strategy_def lowerPercent_def word_sle_eq word_sless_alt)
  from lowerPercent_unset [of unset_strategy 70 ?env sample_evictor 107374182400 85899345920 "[]"] h1 h2 h3
  have c1: "sint (lowerPercent unset_strategy 70) = sint (70 :: int64) - 2"
    and c2: "lowerPercent unset_strategy 70 = 68"
    and c3: "memoryEvict ?env (sample_evictor, []) =
       (case killAndEvictBEPods ?env sample_evictor (collectAllPodMetricsLast ?env)
               (memoryNeedRelease 107374182400 (nodeMemoryUsage 85899345920 107374182400) (70 - 2))
               ([] @ [Klog (KV 5), Klog KInfo]) of
          (m', tr') \<Rightarrow> (m', tr' @ [Klog (KV 5)]))"
    by blast+
  from lowerPercent_unset [of invalid_strategy 50 ?env' sample_evictor _ _ "[]" "slo_with invalid_strategy"] h4
  have c4: "memoryEvict ?env' (sample_evictor, [])
       = (sample_evictor, [] @ [Klog (KV 5), Klog KWarning, Klog (KV 5)])"
    by blast
  from h1 h2 h3 h4 c1 c2 c3 c4 show ?thesis by blast
qed

subsection \<open>The order of the victims\<close>

lemma swo_asym:
  "strict_weak_order_on S lt \<Longrightarrow> a \<in> S \<Longrightarrow> b \<in> S \<Longrightarrow> lt a b \<Longrightarrow> \<not> lt b a"
  unfolding strict_weak_order_on_def by blast

lemma swo_negtrans:
  assumes "strict_weak_order_on S lt" "a \<in> S" "b \<in> S" "c \<in> S" "\<not> lt a b" "\<not> lt b c"
  shows "\<not> lt a c"
proof
  assume ac: "lt a c"
  have irr: "\<And>x. x \<in> S \<Longrightarrow> \<not> lt x x"
    and tr: "\<And>x y z. x \<in> S \<Longrightarrow> y \<in> S \<Longrightarrow> z \<in> S \<Longrightarrow> lt x y \<Longrightarrow> lt y z \<Longrightarrow> lt x z"
    and inc: "\<And>x y z. x \<in> S \<Longrightarrow> y \<in> S \<Longrightarrow> z \<in> S \<Longrightarrow>
                \<not> lt x y \<Longrightarrow> \<not> lt y x \<Longrightarrow> \<not> lt y z \<Longrightarrow> \<not> lt z y \<Longrightarrow> \<not> lt x z"
    using assms(1) unfolding strict_weak_order_on_def by blast+
  have "\<not> lt b a" using tr[of b a c] assms ac by blast
  moreover have "\<not> lt c b" using tr[of a c b] assms ac by blast
  ultimately have "\<not> lt a c" using inc[of a b c] assms by blast
  with ac show False by simp
qed

lemma insert_desc_mset: "mset (insert_desc lt x ys) = add_mset x (mset ys)"
  by (induction ys) auto

lemma insert_desc_set: "set (insert_desc lt x ys) = insert x (set ys)"
  by (induction ys) auto

lemma insert_desc_sorted:
  assumes "strict_weak_order_on S lt" "x \<in> S" "set ys \<subseteq> S"
    and "sorted_wrt (\<lambda>a b. \<not> lt a b) ys"
  shows "sorted_wrt (\<lambda>a b. \<not> lt a b) (insert_desc lt x ys)"
  using assms(3,4)
proof (induction ys)
  case Nil
  then show ?case by simp
next
  case (Cons y ys)
  show ?case
  proof (cases "lt x y")
    case True
    have "\<not> lt y x" using swo_asym[OF assms(1) assms(2) _ True] Cons.prems by simp
    then show ?thesis using True Cons by (auto simp: insert_desc_set)
  next
    case False
    have "\<forall>z\<in>set ys. \<not> lt x z"
    proof
      fix z assume z: "z \<in> set ys"
      then have "\<not> lt y z" using Cons.prems by simp
      then show "\<not> lt x z"
        using swo_negtrans[OF assms(1) assms(2) _ _ False, of z] z Cons.prems by auto
    qed
    then show ?thesis using False Cons.prems by simp
  qed
qed

lemma foldl_insert_desc_mset:
  "mset (foldl (\<lambda>acc x. insert_desc lt x acc) acc xs) = mset acc + mset xs"
  by (induction xs arbitrary: acc) (simp_all add: insert_desc_mset)

lemma foldl_insert_desc_sorted:
  "strict_weak_order_on S lt \<Longrightarrow> set acc \<subseteq> S \<Longrightarrow> set xs \<subseteq> S \<Longrightarrow>
     sorted_wrt (\<lambda>a b. \<not> lt a b) acc \<Longrightarrow>
     sorted_wrt (\<lambda>a b. \<not> lt a b) (foldl (\<lambda>acc x. insert_desc lt x acc) acc xs)"
proof (induction xs arbitrary: acc)
  case Nil
  then show ?case by simp
next
  case (Cons x xs)
  have "sorted_wrt (\<lambda>a b. \<not> lt a b) (insert_desc lt x acc)"
    using insert_desc_sorted[of S lt x acc] Cons.prems by simp
  moreover have "set (insert_desc lt x acc) \<subseteq> S"
    using Cons.prems by (simp add: insert_desc_set)
  ultimately show ?case using Cons.IH[of "insert_desc lt x acc"] Cons.prems by simp
qed

lemma insertionSort_contract: "sort_Slice_contract insertionSort"
  unfolding sort_Slice_contract_def
proof (intro allI conjI impI)
  fix lt :: "podInfo \<Rightarrow> podInfo \<Rightarrow> bool" and xs
  show "mset (insertionSort lt xs) = mset xs"
    by (simp add: insertionSort_def foldl_insert_desc_mset)
  assume "strict_weak_order_on (set xs) lt"
  then have "sorted_wrt (\<lambda>a b. \<not> lt a b) (foldl (\<lambda>acc x. insert_desc lt x acc) [] xs)"
    using foldl_insert_desc_sorted[of "set xs" lt "[]" xs] by simp
  then show "sorted_wrt (\<lambda>a b. \<not> lt b a) (insertionSort lt xs)"
    by (simp add: insertionSort_def sorted_wrt_rev)
qed


lemma less_cycle:
  "bePodInfos_less pod_A pod_B \<and> bePodInfos_less pod_B pod_C \<and> bePodInfos_less pod_C pod_A
   \<and> \<not> bePodInfos_less pod_A pod_C"
  by (simp add: bePodInfos_less_def pod_A_def pod_B_def pod_C_def sample_pod_def word_sless_alt)



lemma sample_irrefl: "\<not> less_by_sample a a"
  by (simp add: less_by_sample_def)






lemma lex_irrefl:
  fixes ia :: int
  shows "\<not> saa \<Longrightarrow> \<not> (ia < ia \<or> (ia = ia \<and> saa))"
  by simp








lemma insertionSort_rev_contract: "sort_Slice_contract insertionSort_rev"
  using insertionSort_contract
  by (simp add: sort_Slice_contract_def insertionSort_rev_def)

lemma collect_cycle: "collectBEPodInfos cycle_pods cycle_metrics = [pod_A, pod_B, pod_C]"
  by (simp add: cycle_pods_def cycle_metrics_def pod_A_def pod_B_def pod_C_def
        GetPodQoSClassRaw_def QoSBE_def sample_pod_def)

lemma less_table:
  "bePodInfos_less pod_A pod_B" "bePodInfos_less pod_B pod_C" "bePodInfos_less pod_C pod_A"
  "\<not> bePodInfos_less pod_B pod_A" "\<not> bePodInfos_less pod_C pod_B" "\<not> bePodInfos_less pod_A pod_C"
  by (simp_all add: bePodInfos_less_def pod_A_def pod_B_def pod_C_def sample_pod_def word_sless_alt)

lemma sorted_cycle:
  "getSortedBEPodInfos insertionSort cycle_pods cycle_metrics = [pod_A, pod_B, pod_C]"
  "getSortedBEPodInfos insertionSort_rev cycle_pods cycle_metrics = [pod_B, pod_C, pod_A]"
  by (simp_all add: getSortedBEPodInfos_def collect_cycle insertionSort_def insertionSort_rev_def
        less_table)




text \<open>
  Claim C10. The comparison given to \<^verbatim>\<open>sort.Slice\<close> is not transitive: for the pods A
  (priority 1, sample 5), B (priority 2, sample 10) and C (no priority, sample 7) it puts
  A before B, B before C and C before A, and not A before C. So it is not a strict weak
  order, and the order of the victims depends on the sorting function: two functions that
  meet the contract of \<^verbatim>\<open>sort.Slice\<close> return these three pods in different orders.
\<close>
theorem comparator_not_transitive:
  "bePodInfos_less pod_A pod_B \<and> bePodInfos_less pod_B pod_C \<and> bePodInfos_less pod_C pod_A
   \<and> \<not> bePodInfos_less pod_A pod_C
   \<and> \<not> transp bePodInfos_less
   \<and> \<not> strict_weak_order_on {pod_A, pod_B, pod_C} bePodInfos_less
   \<and> sort_Slice_contract insertionSort \<and> sort_Slice_contract insertionSort_rev
   \<and> getSortedBEPodInfos insertionSort cycle_pods cycle_metrics = [pod_A, pod_B, pod_C]
   \<and> getSortedBEPodInfos insertionSort_rev cycle_pods cycle_metrics = [pod_B, pod_C, pod_A]"
proof -
  have nt: "\<not> transp bePodInfos_less"
    using less_table by (auto dest: transpD)
  have ns: "\<not> strict_weak_order_on {pod_A, pod_B, pod_C} bePodInfos_less"
    using less_table unfolding strict_weak_order_on_def by blast
  from less_table nt ns insertionSort_contract insertionSort_rev_contract sorted_cycle
  show ?thesis by blast
qed

theorem comparator_not_transitive_witness:
  "bePodInfos_less pod_A pod_B \<and> bePodInfos_less pod_B pod_C \<and> bePodInfos_less pod_C pod_A
   \<and> getSortedBEPodInfos insertionSort cycle_pods cycle_metrics
       \<noteq> getSortedBEPodInfos insertionSort_rev cycle_pods cycle_metrics"
  using comparator_not_transitive
  by (simp add: pod_A_def pod_B_def)

subsection \<open>The tick under memory pressure\<close>

lemma sint_word_of_int_range:
  "- (2 ^ 63) \<le> k \<Longrightarrow> k < 2 ^ 63 \<Longrightarrow> sint (word_of_int k :: int64) = k"
  by (simp add: sint_sbintrunc' signed_take_bit_int_eq_self)

lemma sdiv_nonneg: "0 \<le> (a::int) \<Longrightarrow> 0 < b \<Longrightarrow> a sdiv b = a div b"
  by (simp add: signed_divide_int_def sgn_if)

lemma go_div64_nonneg:
  assumes "0 \<le> sint a" "0 <s b"
  shows "sint (go_div64 a b) = sint a div sint b"
proof -
  have b: "0 < sint b" using assms(2) by (simp add: word_sless_alt)
  have q0: "0 \<le> sint a div sint b" using assms(1) b by (simp add: pos_imp_zdiv_nonneg_iff)
  have "sint a div sint b \<le> sint a div 1" using assms(1) b by (intro zdiv_mono2) simp_all
  then have "sint a div sint b \<le> sint a" by simp
  moreover have "sint a < 2 ^ 63" using sint_lt[of a] by simp
  ultimately have q1: "sint a div sint b < 2 ^ 63" by linarith
  show ?thesis
    using q0 q1 by (simp add: go_div64_def sdiv_nonneg[OF assms(1) b] sint_word_of_int_range)
qed

lemma nodeMemoryUsage_floor:
  assumes cap: "0 <s cap" and u: "used = of_int u" "0 \<le> u" "u * 100 < 2 ^ 63"
  shows "sint (nodeMemoryUsage used cap) = \<lfloor>used * 100 / of_int (sint cap)\<rfloor>"
proof -
  have conv: "int64_of_float used = word_of_int u"
    using u by (simp add: int64_of_float_def)
  have w: "int64_of_float used * 100 = (word_of_int (u * 100) :: int64)"
    by (simp add: conv)
  have "- (2 ^ 63) \<le> u * 100" using u(2) by simp
  from sint_word_of_int_range[OF this u(3)]
  have s: "sint (int64_of_float used * 100) = u * 100"
    by (simp only: w)
  have "sint (nodeMemoryUsage used cap) = (u * 100) div sint cap"
    unfolding nodeMemoryUsage_def using go_div64_nonneg[of "int64_of_float used * 100" cap] s u cap
    by simp
  also have "\<dots> = \<lfloor>of_int (u * 100) / of_int (sint cap) :: real\<rfloor>"
    by (simp only: floor_divide_of_int_eq)
  finally show ?thesis using u by simp
qed

lemma memoryNeedRelease_exact:
  assumes cap: "0 <s cap" and gt: "L <s usage"
    and range: "sint cap * (sint usage - sint L) < 2 ^ 63"
  shows "sint (memoryNeedRelease cap usage L) = sint cap * (sint usage - sint L) div 100"
proof -
  have c: "0 < sint cap" using cap by (simp add: word_sless_alt)
  have d: "0 < sint usage - sint L" using gt by (simp add: word_sless_alt)
  have "sint usage - sint L \<le> sint cap * (sint usage - sint L)"
    using c d by (simp add: mult_le_cancel_right1)
  then have dr: "sint usage - sint L < 2 ^ 63" using range by linarith
  have sd: "sint (usage - L) = sint usage - sint L"
    using d dr by (simp add: sint_word_ariths signed_take_bit_int_eq_self)
  have p: "0 < sint cap * (sint usage - sint L)" using c d by simp
  have "sint (cap * (usage - L)) = signed_take_bit (LENGTH(64) - 1) (sint cap * sint (usage - L))"
    by (rule sint_word_ariths)
  also have "\<dots> = signed_take_bit 63 (sint cap * (sint usage - sint L))"
    by (simp only: sd) simp
  also have "\<dots> = sint cap * (sint usage - sint L)"
    using p range by (intro signed_take_bit_int_eq_self) simp_all
  finally have sp: "sint (cap * (usage - L)) = sint cap * (sint usage - sint L)" .
  have "sint (go_div64 (cap * (usage - L)) 100) = sint (cap * (usage - L)) div sint (100 :: int64)"
    using go_div64_nonneg[of "cap * (usage - L)" 100] p sp by (simp add: word_sless_alt)
  then show ?thesis by (simp add: memoryNeedRelease_def sp)
qed

lemma released_Cons: "released (v # vs) = credit v + released vs"
  by (simp add: released_def)

lemma killLoop_drains:
  "\<exists>k. k \<le> length vs
     \<and> (\<forall>j<k. rel0 + released (take j vs) <s need)
     \<and> (k = length vs \<or> need \<le>s rel0 + released (take k vs))
     \<and> killLoop rt msg need vs (rel0, killed0, tr0)
         = (rel0 + released (take k vs), killed0 @ map pod (take k vs),
            foldl (\<lambda>t v. killContainers rt (pod v) (msg @ '', kill pod: '' @ Name (pod v)) t)
              tr0 (take k vs))"
proof (induction vs arbitrary: rel0 killed0 tr0)
  case Nil
  show ?case by (rule exI[of _ 0]) (simp add: released_def)
next
  case (Cons v vs)
  show ?case
  proof (cases "need \<le>s rel0")
    case True
    show ?thesis by (rule exI[of _ 0]) (simp add: True released_def)
  next
    case False
    then have lt: "rel0 <s need" by (simp add: signed.not_le)
    let ?tr = "killContainers rt (pod v) (msg @ '', kill pod: '' @ Name (pod v)) tr0"
    from Cons.IH[of "rel0 + credit v" "killed0 @ [pod v]" ?tr]
    obtain k where k: "k \<le> length vs"
      "\<forall>j<k. rel0 + credit v + released (take j vs) <s need"
      "k = length vs \<or> need \<le>s rel0 + credit v + released (take k vs)"
      "killLoop rt msg need vs (rel0 + credit v, killed0 @ [pod v], ?tr)
         = (rel0 + credit v + released (take k vs), (killed0 @ [pod v]) @ map pod (take k vs),
            foldl (\<lambda>t v. killContainers rt (pod v) (msg @ '', kill pod: '' @ Name (pod v)) t)
              ?tr (take k vs))"
      by blast
    have upd: "(if memUsed v \<noteq> 0 then rel0 + int64_of_float (memUsed v) else rel0) = rel0 + credit v"
      by (simp add: credit_def)
    have below: "\<forall>j<Suc k. rel0 + released (take j (v # vs)) <s need"
    proof (intro allI impI)
      fix j assume "j < Suc k"
      then show "rel0 + released (take j (v # vs)) <s need"
        using lt k(2) by (cases j) (simp_all add: released_def add.assoc)
    qed
    show ?thesis
    proof (rule exI[of _ "Suc k"], intro conjI)
      show "Suc k \<le> length (v # vs)" using k(1) by simp
      show "\<forall>j<Suc k. rel0 + released (take j (v # vs)) <s need" by (rule below)
      show "Suc k = length (v # vs) \<or> need \<le>s rel0 + released (take (Suc k) (v # vs))"
        using k(3) by (simp add: released_Cons add.assoc)
      show "killLoop rt msg need (v # vs) (rel0, killed0, tr0)
         = (rel0 + released (take (Suc k) (v # vs)), killed0 @ map pod (take (Suc k) (v # vs)),
            foldl (\<lambda>t v. killContainers rt (pod v) (msg @ '', kill pod: '' @ Name (pod v)) t)
              tr0 (take (Suc k) (v # vs)))"
        using False k(4) by (simp add: upd released_Cons add.assoc)
    qed
  qed
qed

lemma drained_unique: "drained need vs k \<Longrightarrow> drained need vs k' \<Longrightarrow> k = k'"
proof (rule ccontr)
  assume d: "drained need vs k" "drained need vs k'" and ne: "k \<noteq> k'"
  have aux: False if a: "drained need vs i" and b: "drained need vs j" and lt: "i < j" for i j
  proof -
    from b lt have "released (take i vs) <s need" by (simp add: drained_def list_all_iff)
    moreover from b lt have "i \<noteq> length vs" by (simp add: drained_def list_all_iff)
    with a have "need \<le>s released (take i vs)" by (simp add: drained_def list_all_iff)
    ultimately show False by (simp add: signed.not_le[symmetric])
  qed
  from ne consider "k < k'" | "k' < k" by linarith
  then show False using aux d by cases blast+
qed


lemma sample_guards:
  "tick_guards sample_env sample_evictor sample_strategy 70 107374182400 85899345920"
  by (simp add: tick_guards_def sample_env_def sample_evictor_def NewMemoryEvictor_def
        sample_resmanager_def sample_config_def time_Add_def time_Second_def sample_slo_def
        sample_strategy_def lowerPercent_def word_sless_alt)

lemma fraction_guards:
  "tick_guards fraction_env sample_evictor sample_strategy 70 17179869184 (96207267431 / 8)"
  by (simp add: tick_guards_def fraction_env_def sample_env_def sample_evictor_def
        NewMemoryEvictor_def sample_resmanager_def sample_config_def time_Add_def time_Second_def sample_slo_def
        sample_strategy_def lowerPercent_def word_sless_alt)

lemma usage_fraction: "nodeMemoryUsage (96207267431 / 8) 17179869184 = 69"
  by (simp add: nodeMemoryUsage_def go_div64_def int64_of_float_def signed_divide_int_def)

text \<open>
  Claim C3, as stated, fails where it gives the usage percent as the floor of
  \<open>used * 100 / capacity\<close>: the code converts the sample to \<^verbatim>\<open>int64\<close> first, which
  drops its fraction, and then multiplies and divides in \<^verbatim>\<open>int64\<close>. On a node of
  16 GiB with the sample 12025908428.875 bytes and the threshold 70, all guards pass and
  the floor is 70, which is not below the threshold, but the code computes 69 and the tick
  returns without killing or evicting.
\<close>
theorem usage_percent_counterexample:
  "tick_guards fraction_env sample_evictor sample_strategy 70 17179869184 (96207267431 / 8)
   \<and> \<lfloor>(96207267431 / 8) * 100 / 17179869184 :: real\<rfloor> = 70
   \<and> nodeMemoryUsage (96207267431 / 8) 17179869184 = 69
   \<and> memoryEvict fraction_env (sample_evictor, [])
       = (sample_evictor, [Klog (KV 5), Klog (KV 5), Klog (KV 5)])"
proof -
  have "memoryEvict fraction_env (sample_evictor, [])
       = (sample_evictor, [Klog (KV 5), Klog (KV 5), Klog (KV 5)])"
    by (simp add: memoryEvict_def memoryEvict_body_proceeds[OF fraction_guards] usage_fraction
          word_sless_alt)
  moreover have "\<lfloor>(96207267431 / 8) * 100 / 17179869184 :: real\<rfloor> = 70"
    by simp
  ultimately show ?thesis using fraction_guards usage_fraction by blast
qed

text \<open>
  Claim C3, amended. On a tick where all guards pass, the usage percent is
  \<^verbatim>\<open>int64(used) * 100 / capacity\<close> in \<^verbatim>\<open>int64\<close> arithmetic (\<open>nodeMemoryUsage\<close>); it
  is the floor of \<open>used * 100 / capacity\<close> when the sample is a whole number, not
  negative, and its product with 100 fits \<^verbatim>\<open>int64\<close>. When the percent is below the
  threshold the tick only logs and returns. Otherwise the budget is
  \<^verbatim>\<open>capacity * (usagePct - L) / 100\<close> in \<^verbatim>\<open>int64\<close> arithmetic (\<open>memoryNeedRelease\<close>),
  which is that quotient of integers when the product fits \<^verbatim>\<open>int64\<close>; the loop kills
  the containers of the first \<open>k\<close> victims of the sorted list, in order, where \<open>k\<close> is
  the one number with \<open>drained\<close>: each victim is killed while the total released, which
  counts only samples that are not zero, was below the budget, and the loop stops once the
  total has reached the budget or the victims are used up; these \<open>k\<close> pods, in order,
  are then passed to \<^verbatim>\<open>evictPodsIfNotEvicted\<close>, and \<open>lastEvictTime\<close> is set.
\<close>
theorem memoryEvict_pressure:
  "tick_guards env m cfg T cap used \<longrightarrow>
     (used = of_int u \<and> 0 \<le> u \<and> u * 100 < 2 ^ 63 \<longrightarrow>
        sint (nodeMemoryUsage used cap) = \<lfloor>used * 100 / of_int (sint cap)\<rfloor>)
   \<and> (nodeMemoryUsage used cap <s T \<longrightarrow>
        memoryEvict env (m, tr) = (m, tr @ [Klog (KV 5), Klog (KV 5), Klog (KV 5)]))
   \<and> (\<not> nodeMemoryUsage used cap <s T \<longrightarrow>
        (sint cap * (sint (nodeMemoryUsage used cap) - sint (lowerPercent cfg T)) < 2 ^ 63 \<longrightarrow>
           sint (memoryNeedRelease cap (nodeMemoryUsage used cap) (lowerPercent cfg T))
             = sint cap * (sint (nodeMemoryUsage used cap) - sint (lowerPercent cfg T)) div 100)
      \<and> (let need = memoryNeedRelease cap (nodeMemoryUsage used cap) (lowerPercent cfg T);
              victims = getSortedBEPodInfos (sortSlice env) (GetAllPods env)
                          (collectAllPodMetricsLast env);
              message = ''killAndEvictBEPods for node('' @ nodeName (resManager m)
                          @ ''), need to release memory: '' @ showInt (sint need)
          in \<exists>k. drained need victims k \<and> (\<forall>k'. drained need victims k' \<longrightarrow> k' = k)
               \<and> memoryEvict env (m, tr) =
                   (case evictPodsIfNotEvicted (clusterAPI env) (map pod (take k victims))
                           EvictPodByNodeMemoryUsage message
                           (resManager m,
                            foldl (\<lambda>t v. killContainers (runtime env) (pod v)
                                            (message @ '', kill pod: '' @ Name (pod v)) t)
                              (tr @ [Klog (KV 5), Klog KInfo]) (take k victims)) of
                      (r, tr2) \<Rightarrow>
                        (m\<lparr>resManager := r, lastEvictTime := now1 env\<rparr>,
                         tr2 @ [Klog KInfo, Klog (KV 5)]))))"
proof (intro impI conjI)
  assume g: "tick_guards env m cfg T cap used"
  then have cap: "0 <s cap" and LT: "lowerPercent cfg T <s T"
    by (simp_all add: tick_guards_def)
  {
    assume "used = of_int u \<and> 0 \<le> u \<and> u * 100 < 2 ^ 63"
    then show "sint (nodeMemoryUsage used cap) = \<lfloor>used * 100 / of_int (sint cap)\<rfloor>"
      using nodeMemoryUsage_floor[OF cap, of used u] by blast
  }
  {
    assume "nodeMemoryUsage used cap <s T"
    then show "memoryEvict env (m, tr) = (m, tr @ [Klog (KV 5), Klog (KV 5), Klog (KV 5)])"
      by (simp add: memoryEvict_def memoryEvict_body_proceeds[OF g])
  }
  {
    assume ge: "\<not> nodeMemoryUsage used cap <s T"
      and "sint cap * (sint (nodeMemoryUsage used cap) - sint (lowerPercent cfg T)) < 2 ^ 63"
    moreover from ge LT have "lowerPercent cfg T <s nodeMemoryUsage used cap"
      by (simp add: word_sless_alt)
    ultimately show "sint (memoryNeedRelease cap (nodeMemoryUsage used cap) (lowerPercent cfg T))
             = sint cap * (sint (nodeMemoryUsage used cap) - sint (lowerPercent cfg T)) div 100"
      using memoryNeedRelease_exact[OF cap] by blast
  }
  {
    assume ge: "\<not> nodeMemoryUsage used cap <s T"
    define need where "need = memoryNeedRelease cap (nodeMemoryUsage used cap) (lowerPercent cfg T)"
    define victims where "victims = getSortedBEPodInfos (sortSlice env) (GetAllPods env)
                          (collectAllPodMetricsLast env)"
    define message where "message = ''killAndEvictBEPods for node('' @ nodeName (resManager m)
                          @ ''), need to release memory: '' @ showInt (sint need)"
    define tr0 where "tr0 = tr @ [Klog (KV 5), Klog KInfo]"
    from killLoop_drains[of victims 0 need "runtime env" message "[]" tr0]
    obtain k where k: "k \<le> length victims"
      "\<forall>j<k. released (take j victims) <s need"
      "k = length victims \<or> need \<le>s released (take k victims)"
      "killLoop (runtime env) message need victims (0, [], tr0)
         = (released (take k victims), map pod (take k victims),
            foldl (\<lambda>t v. killContainers (runtime env) (pod v)
                            (message @ '', kill pod: '' @ Name (pod v)) t) tr0 (take k victims))"
      by auto
    have d: "drained need victims k" using k(1,2,3) by (simp add: drained_def list_all_iff)
    have u: "\<forall>k'. drained need victims k' \<longrightarrow> k' = k"
      using drained_unique[OF _ d] by blast
    have kae: "killAndEvictBEPods env m (collectAllPodMetricsLast env) need tr0
       = (case evictPodsIfNotEvicted (clusterAPI env) (map pod (take k victims))
                 EvictPodByNodeMemoryUsage message
                 (resManager m,
                  foldl (\<lambda>t v. killContainers (runtime env) (pod v)
                                  (message @ '', kill pod: '' @ Name (pod v)) t) tr0 (take k victims)) of
            (r, tr2) \<Rightarrow> (m\<lparr>resManager := r, lastEvictTime := now1 env\<rparr>, tr2 @ [Klog KInfo]))"
      unfolding killAndEvictBEPods_def Let_def
      by (simp only: victims_def[symmetric] message_def[symmetric] k(4)) simp
    have "memoryEvict env (m, tr) =
        (case evictPodsIfNotEvicted (clusterAPI env) (map pod (take k victims))
                 EvictPodByNodeMemoryUsage message
                 (resManager m,
                  foldl (\<lambda>t v. killContainers (runtime env) (pod v)
                                  (message @ '', kill pod: '' @ Name (pod v)) t) tr0 (take k victims)) of
            (r, tr2) \<Rightarrow> (m\<lparr>resManager := r, lastEvictTime := now1 env\<rparr>,
                           tr2 @ [Klog KInfo, Klog (KV 5)]))"
      using memoryEvict_proceeds[OF g ge, of tr]
      by (simp add: need_def[symmetric] tr0_def[symmetric] kae split: prod.splits)
    with d u show "let need = memoryNeedRelease cap (nodeMemoryUsage used cap) (lowerPercent cfg T);
              victims = getSortedBEPodInfos (sortSlice env) (GetAllPods env)
                          (collectAllPodMetricsLast env);
              message = ''killAndEvictBEPods for node('' @ nodeName (resManager m)
                          @ ''), need to release memory: '' @ showInt (sint need)
          in \<exists>k. drained need victims k \<and> (\<forall>k'. drained need victims k' \<longrightarrow> k' = k)
               \<and> memoryEvict env (m, tr) =
                   (case evictPodsIfNotEvicted (clusterAPI env) (map pod (take k victims))
                           EvictPodByNodeMemoryUsage message
                           (resManager m,
                            foldl (\<lambda>t v. killContainers (runtime env) (pod v)
                                            (message @ '', kill pod: '' @ Name (pod v)) t)
                              (tr @ [Klog (KV 5), Klog KInfo]) (take k victims)) of
                      (r, tr2) \<Rightarrow>
                        (m\<lparr>resManager := r, lastEvictTime := now1 env\<rparr>,
                         tr2 @ [Klog KInfo, Klog (KV 5)]))"
      unfolding Let_def need_def victims_def message_def tr0_def by blast
  }
qed

theorem memoryEvict_pressure_witness:
  "tick_guards sample_env sample_evictor sample_strategy 70 107374182400 85899345920
   \<and> ((85899345920 :: real) = of_int 85899345920 \<and> (0 :: int) \<le> 85899345920
        \<and> (85899345920 :: int) * 100 < 2 ^ 63)
   \<and> \<not> nodeMemoryUsage 85899345920 107374182400 <s 70
   \<and> sint (107374182400 :: int64)
        * (sint (nodeMemoryUsage 85899345920 107374182400) - sint (lowerPercent sample_strategy 70)) < 2 ^ 63
   \<and> sint (nodeMemoryUsage 85899345920 107374182400) = \<lfloor>(85899345920 :: real) * 100 / of_int (sint (107374182400 :: int64))\<rfloor>
   \<and> sint (memoryNeedRelease 107374182400 (nodeMemoryUsage 85899345920 107374182400) (lowerPercent sample_strategy 70))
        = 21474836480"
proof -
  have h1: "(85899345920 :: real) = of_int 85899345920 \<and> (0 :: int) \<le> 85899345920
     \<and> (85899345920 :: int) * 100 < 2 ^ 63"
    by simp
  have h2: "\<not> nodeMemoryUsage 85899345920 107374182400 <s 70"
    by (simp add: usage_80)
  have h3: "sint (107374182400 :: int64)
        * (sint (nodeMemoryUsage 85899345920 107374182400) - sint (lowerPercent sample_strategy 70)) < 2 ^ 63"
    by (simp add: usage_80 lowerPercent_def sample_strategy_def)
  note t = memoryEvict_pressure [of sample_env sample_evictor sample_strategy 70 107374182400 85899345920
         85899345920 "[]", THEN mp, OF sample_guards]
  note c1 = t[THEN conjunct1, THEN mp, OF h1]
  note c2 = t[THEN conjunct2, THEN conjunct2, THEN mp, OF h2, THEN conjunct1, THEN mp, OF h3]
  have c2': "sint (memoryNeedRelease 107374182400 (nodeMemoryUsage 85899345920 107374182400) (lowerPercent sample_strategy 70))
        = 21474836480"
    unfolding c2 by (simp add: usage_80 lowerPercent_def sample_strategy_def)
  from sample_guards h1 h2 h3 c1 c2' show ?thesis by blast
qed

subsection \<open>The cool-down\<close>

lemma cool_duration_exact:
  fixes cool :: int64
  assumes "- (2 ^ 63) \<le> sint cool * 1000000000" "sint cool * 1000000000 < 2 ^ 63"
  shows "sint (cool * time_Second) = sint cool * 1000000000"
proof -
  have "sint (cool * time_Second) = signed_take_bit (LENGTH(64) - 1) (sint cool * sint time_Second)"
    by (rule sint_word_ariths)
  also have "\<dots> = signed_take_bit 63 (sint cool * 1000000000)"
    by (simp add: time_Second_def)
  also have "\<dots> = sint cool * 1000000000"
    using assms by (intro signed_take_bit_int_eq_self) simp_all
  finally show ?thesis .
qed

lemma overflow_guards:
  "tick_guards sample_env overflow_evictor sample_strategy 70 107374182400 85899345920"
  by (simp add: tick_guards_def sample_env_def overflow_evictor_def NewMemoryEvictor_def
        sample_resmanager_def sample_config_def time_Add_def time_Second_def sample_slo_def
        sample_strategy_def lowerPercent_def word_sless_alt)

lemma overflow_duration:
  "sint (MemoryEvictCoolTimeSeconds (config (resManager overflow_evictor)) * time_Second)
     = - 9223372036709551616"
  by (simp add: overflow_evictor_def NewMemoryEvictor_def sample_resmanager_def sample_config_def
        time_Second_def)

lemma sorted_scenario:
  "getSortedBEPodInfos insertionSort scenario_pods (collectAllPodMetricsLast sample_env)
     = [\<lparr>pod = sample_pod\<lparr>Name := ''C'', UID := ''uid-c'', Priority := Some 50\<rparr>, memUsed = 1073741824\<rparr>,
        \<lparr>pod = sample_pod\<lparr>Name := ''B'', UID := ''uid-b'', Priority := Some 100\<rparr>, memUsed = 10737418240\<rparr>,
        \<lparr>pod = sample_pod\<lparr>Name := ''A'', UID := ''uid-a'', Priority := Some 100\<rparr>, memUsed = 4294967296\<rparr>]"
  by (simp add: getSortedBEPodInfos_def scenario_pods_def sample_env_def sample_pod_def
        GetPodQoSClassRaw_def QoSBE_def insertionSort_def bePodInfos_less_def word_sless_alt)

lemma need_scenario:
  "memoryNeedRelease 107374182400 (nodeMemoryUsage 85899345920 107374182400)
     (lowerPercent sample_strategy 70) = 21474836480"
  by (simp add: usage_80 lowerPercent_def sample_strategy_def memoryNeedRelease_def go_div64_def
        signed_divide_int_def)

lemma overflow_tick_evicts:
  "map (\<lambda>e. case e of EvictCall ns n u v err \<Rightarrow> (n, err))
     (filter is_EvictCall (snd (memoryEvict sample_env (overflow_evictor, []))))
   = [(''C'', None), (''B'', None), (''A'', None)]"
proof -
  have env: "sortSlice sample_env = insertionSort" "GetAllPods sample_env = scenario_pods"
    "clusterAPI sample_env = api_accepts" "runtime sample_env = sample_runtime"
    by (simp_all add: sample_env_def)
  have r: "podsEvicted (resManager overflow_evictor) = Map.empty"
    "evictVersion (resManager overflow_evictor) = ''v1''"
    by (simp_all add: overflow_evictor_def NewMemoryEvictor_def sample_resmanager_def)
  have ge: "\<not> nodeMemoryUsage 85899345920 107374182400 <s 70"
    by (simp add: usage_80)
  show ?thesis
    unfolding memoryEvict_proceeds[OF overflow_guards ge] need_scenario
    by (simp add: killAndEvictBEPods_def Let_def env sorted_scenario word_sle_eq int64_of_float_def
          killContainers_def sample_pod_def sample_runtime_def
          evictPodIfNotEvicted_def evictPod_cases cache_Get_def cache_SetDefault_def r
          api_accepts_def split: prod.splits)
qed

text \<open>
  Claim C6, as stated, fails when the cool-down option, in nanoseconds, is beyond the range
  of \<^verbatim>\<open>int64\<close>. With the option at 9223372037 seconds, an evictor built at time 0 and
  a tick 100 seconds later, the clock is before \<open>lastEvictTime\<close> plus the cool-down; but
  the product \<^verbatim>\<open>time.Duration(cool) * time.Second\<close> wraps to a negative duration, the
  test of the source is false, and the tick goes on: it evicts the three pods of the
  scenario and sets \<open>lastEvictTime\<close>.
\<close>
theorem cooldown_overflow_counterexample:
  "lastEvictTime overflow_evictor = 0
   \<and> sint (MemoryEvictCoolTimeSeconds (config (resManager overflow_evictor))) = 9223372037
   \<and> now0 sample_env < lastEvictTime overflow_evictor
         + sint (MemoryEvictCoolTimeSeconds (config (resManager overflow_evictor))) * 1000000000
   \<and> sint (MemoryEvictCoolTimeSeconds (config (resManager overflow_evictor)) * time_Second)
       = - 9223372036709551616
   \<and> map (\<lambda>e. case e of EvictCall ns n u v err \<Rightarrow> (n, err))
         (filter is_EvictCall (snd (memoryEvict sample_env (overflow_evictor, []))))
       = [(''C'', None), (''B'', None), (''A'', None)]
   \<and> lastEvictTime (fst (memoryEvict sample_env (overflow_evictor, []))) = 101000000000"
proof -
  have a: "lastEvictTime overflow_evictor = 0
     \<and> sint (MemoryEvictCoolTimeSeconds (config (resManager overflow_evictor))) = 9223372037"
    by (simp add: overflow_evictor_def NewMemoryEvictor_def sample_resmanager_def sample_config_def)
  then have b: "now0 sample_env < lastEvictTime overflow_evictor
         + sint (MemoryEvictCoolTimeSeconds (config (resManager overflow_evictor))) * 1000000000"
    by (simp add: sample_env_def)
  have ge: "\<not> nodeMemoryUsage 85899345920 107374182400 <s 70"
    by (simp add: usage_80)
  have "lastEvictTime (fst (memoryEvict sample_env (overflow_evictor, []))) = now1 sample_env"
    unfolding memoryEvict_proceeds[OF overflow_guards ge]
    using killAndEvictBEPods_lastEvictTime
    by (simp split: prod.splits) (metis fst_conv)
  then have c: "lastEvictTime (fst (memoryEvict sample_env (overflow_evictor, []))) = 101000000000"
    by (simp add: sample_env_def)
  from a b c overflow_duration overflow_tick_evicts show ?thesis by blast
qed

text \<open>
  Claim C6, amended. (1) During the cool-down the evictor does not act, as long as the
  cool-down option in nanoseconds is within \<^verbatim>\<open>int64\<close>: when the clock at the start of
  the tick is before \<open>lastEvictTime\<close> plus \<^verbatim>\<open>MemoryEvictCoolTimeSeconds\<close> (times are
  in nanoseconds), the tick leaves the evictor as it is and does nothing but log three
  lines at verbosity 5: no container is stopped, no eviction call is made, no event is
  emitted. (2) A tick either keeps \<open>lastEvictTime\<close> or sets it to the clock read after
  the eviction wave. (3) Over the ticks of one evictor, with a clock that does not run
  backwards and \<open>lastEvictTime\<close> a reading of that clock, \<open>lastEvictTime\<close> never
  decreases.
\<close>
theorem memoryEvict_cooldown_and_monotone:
  "(- (2 ^ 63) \<le> sint (MemoryEvictCoolTimeSeconds (config (resManager m))) * 1000000000
    \<and> sint (MemoryEvictCoolTimeSeconds (config (resManager m))) * 1000000000 < 2 ^ 63
    \<and> now0 env < lastEvictTime m
          + sint (MemoryEvictCoolTimeSeconds (config (resManager m))) * 1000000000 \<longrightarrow>
      memoryEvict env (m, tr) = (m, tr @ [Klog (KV 5), Klog (KV 5), Klog (KV 5)]))
   \<and> (lastEvictTime (fst (memoryEvict env (m, tr))) = lastEvictTime m
       \<or> lastEvictTime (fst (memoryEvict env (m, tr))) = now1 env)
   \<and> (lastEvictTime m \<le> t \<and> clock_monotone t envs \<longrightarrow>
        sorted (lastEvictTime m # map (\<lambda>w. lastEvictTime (fst w)) (run_ticks envs (m, tr))))"
proof (intro conjI impI)
  assume h: "- (2 ^ 63) \<le> sint (MemoryEvictCoolTimeSeconds (config (resManager m))) * 1000000000
    \<and> sint (MemoryEvictCoolTimeSeconds (config (resManager m))) * 1000000000 < 2 ^ 63
    \<and> now0 env < lastEvictTime m
          + sint (MemoryEvictCoolTimeSeconds (config (resManager m))) * 1000000000"
  then have "now0 env < time_Add (lastEvictTime m)
        (MemoryEvictCoolTimeSeconds (config (resManager m)) * time_Second)"
    using cool_duration_exact[of "MemoryEvictCoolTimeSeconds (config (resManager m))"]
    by (simp add: time_Add_def)
  then show "memoryEvict env (m, tr) = (m, tr @ [Klog (KV 5), Klog (KV 5), Klog (KV 5)])"
    by (rule memoryEvict_cooldown)
next
  show "lastEvictTime (fst (memoryEvict env (m, tr))) = lastEvictTime m
       \<or> lastEvictTime (fst (memoryEvict env (m, tr))) = now1 env"
    by (rule memoryEvict_lastEvictTime)
next
  assume "lastEvictTime m \<le> t \<and> clock_monotone t envs"
  then show "sorted (lastEvictTime m # map (\<lambda>w. lastEvictTime (fst w)) (run_ticks envs (m, tr)))"
    using run_ticks_sorted[of "(m, tr)" t envs] by simp
qed

theorem memoryEvict_cooldown_and_monotone_witness:
  "(- (2 ^ 63) \<le> sint (MemoryEvictCoolTimeSeconds (config (resManager sample_evictor))) * 1000000000
    \<and> sint (MemoryEvictCoolTimeSeconds (config (resManager sample_evictor))) * 1000000000 < 2 ^ 63
    \<and> now0 cooling_env < lastEvictTime sample_evictor
          + sint (MemoryEvictCoolTimeSeconds (config (resManager sample_evictor))) * 1000000000)
   \<and> memoryEvict cooling_env (sample_evictor, [])
       = (sample_evictor, [] @ [Klog (KV 5), Klog (KV 5), Klog (KV 5)])
   \<and> (lastEvictTime sample_evictor \<le> 0 \<and> clock_monotone 0 [cooling_env, sample_env])
   \<and> sorted (lastEvictTime sample_evictor
        # map (\<lambda>w. lastEvictTime (fst w)) (run_ticks [cooling_env, sample_env] (sample_evictor, [])))"
proof -
  have h1: "- (2 ^ 63) \<le> sint (MemoryEvictCoolTimeSeconds (config (resManager sample_evictor))) * 1000000000
    \<and> sint (MemoryEvictCoolTimeSeconds (config (resManager sample_evictor))) * 1000000000 < 2 ^ 63
    \<and> now0 cooling_env < lastEvictTime sample_evictor
          + sint (MemoryEvictCoolTimeSeconds (config (resManager sample_evictor))) * 1000000000"
    by (simp add: cooling_env_def sample_evictor_def NewMemoryEvictor_def sample_resmanager_def
          sample_config_def)
  have h2: "lastEvictTime sample_evictor \<le> 0 \<and> clock_monotone 0 [cooling_env, sample_env]"
    by (simp add: sample_evictor_def NewMemoryEvictor_def cooling_env_def sample_env_def)
  from memoryEvict_cooldown_and_monotone
         [of sample_evictor cooling_env "[]" 0 "[cooling_env, sample_env]"] h1 h2
  show ?thesis by blast
qed

end
